theory Spec2Isabelle
  imports Main "HOL-Library.Sublist"
begin

section \<open>The TPA session of the SDK (packages/sdk/src/tpa/session/index.ts)\<close>

subsection \<open>JavaScript sets and strings\<close>

text \<open>
  A JavaScript \<open>Set\<close> keeps its members in insertion order and without duplicates;
  \<open>Array.from\<close> and the spread operator read them in that order. It is modelled as a
  list: \<open>add\<close> appends a member that is not yet there, \<open>delete\<close> removes it,
  \<open>clear\<close> is the empty list, \<open>new Set(xs)\<close> adds the members of \<open>xs\<close> one by one.
\<close>

definition set_add :: "'a list \<Rightarrow> 'a \<Rightarrow> 'a list" where
  "set_add xs x = (if x \<in> set xs then xs else xs @ [x])"

definition set_delete :: "'a list \<Rightarrow> 'a \<Rightarrow> 'a list" where
  "set_delete xs x = filter (\<lambda>y. y \<noteq> x) xs"

definition set_has :: "'a list \<Rightarrow> 'a \<Rightarrow> bool" where
  "set_has xs x = (x \<in> set xs)"

definition new_Set :: "'a list \<Rightarrow> 'a list" where
  "new_Set xs = foldl set_add [] xs"

text \<open>
  \<open>String.prototype.includes\<close>: the argument occurs somewhere in the string as a
  contiguous run of characters.
\<close>

fun str_includes :: "string \<Rightarrow> string \<Rightarrow> bool" where
  "str_includes [] sub = (sub = [])"
| "str_includes (c # cs) sub = (prefix sub (c # cs) \<or> str_includes cs sub)"

text \<open>
  Where the code looks at the characters of a string (\<open>trim\<close>, a regular expression,
  \<open>toLowerCase\<close>), the string is modelled as JavaScript has it, as the list of its
  UTF-16 code units. \<open>units\<close> gives the code units of a text of ASCII characters.
\<close>

type_synonym js_string = "nat list"

definition units :: "string \<Rightarrow> js_string" where
  "units x = map of_char x"

text \<open>
  The white space of ECMAScript, which \<open>String.prototype.trim\<close> strips and the class
  \<open>\s\<close> of a regular expression matches: the characters WhiteSpace (tab U+0009,
  vertical tab U+000B, form feed U+000C, U+FEFF and the space separators of Unicode:
  U+0020, U+00A0, U+1680, U+2000 to U+200A, U+202F, U+205F, U+3000) and LineTerminator
  (U+000A, U+000D, U+2028, U+2029). All of them are single code units.
\<close>

definition js_whitespace :: "nat \<Rightarrow> bool" where
  "js_whitespace c =
     (c = 9 \<or> c = 10 \<or> c = 11 \<or> c = 12 \<or> c = 13 \<or> c = 32 \<or> c = 160 \<or> c = 5760
      \<or> (8192 \<le> c \<and> c \<le> 8202) \<or> c = 8232 \<or> c = 8233 \<or> c = 8239 \<or> c = 8287
      \<or> c = 12288 \<or> c = 65279)"

definition trim :: "js_string \<Rightarrow> js_string" where
  "trim x = rev (dropWhile js_whitespace (rev (dropWhile js_whitespace x)))"

subsection \<open>Session state\<close>

type_synonym ExtendedStreamType = string

type_synonym AppSettings = "(string \<times> string) list"

datatype error = Error (error_message: string)

text \<open>
  Messages handed to \<open>send\<close>. The method is typed \<open>TpaToCloudMessage\<close>, but checks at
  run time that its argument is an object with a \<open>type\<close> property; the first two
  constructors are the arguments that fail those checks. Time stamps are left out.
\<close>

datatype TpaToCloudMessage =
    NotAnObject
  | NoTypeProperty
  | TpaConnectionInit "string option" string string
  | TpaSubscriptionUpdate string "ExtendedStreamType list" "string option"
  | OtherTpaMessage string

text \<open>
  The socket of the \<open>ws\<close> library, as far as the session reads and writes it:
  \<open>readyState\<close> (0 CONNECTING, 1 OPEN, 2 CLOSING, 3 CLOSED), the frames that
  \<open>ws.send\<close> accepted, and the exception that \<open>ws.send\<close> (or \<open>JSON.stringify\<close>)
  raises for the next frame, if it raises one.
\<close>

record WebSocket =
  readyState :: nat
  written :: "TpaToCloudMessage list"
  sendFailure :: "string option"

record TpaSessionConfig =
  packageName :: string
  apiKey :: string
  autoReconnect :: bool
  maxReconnectAttempts :: "int option"
  reconnectDelay :: "int option"

text \<open>The payload of a \<open>data_stream\<close> message, as far as the session inspects it.\<close>

record StreamData =
  text_field :: "string option"
  transcribeLanguage :: "string option"
  translateLanguage :: "string option"
  position :: "string option"
  buttonId :: "string option"
  pressType :: "string option"

text \<open>What \<open>sanitizeEventData\<close> hands to the handlers.\<close>

datatype EventData =
    EmptyObject
  | Payload StreamData
  | DefaultTranscription int
  | DefaultHeadPosition int
  | DefaultButtonPress int

datatype event =
    ErrorEvent string
  | DisconnectedEvent int string bool bool
  | StreamEvent ExtendedStreamType EventData
  | AudioChunkEvent string
  | CustomMessageEvent string
  | MediaEvent string

text \<open>
  The arguments of \<open>DisconnectedEvent\<close> are the fields \<open>code\<close>, \<open>reason\<close>,
  \<open>wasClean\<close> and \<open>permanent\<close> of the event (an absent \<open>permanent\<close> is false);
  its human-readable \<open>message\<close> is left out.

  The session record has the fields of the class that the methods below read and write, and
  three logs of effects, which are no fields of the class: \<open>emitted\<close>, the events
  handed to the event manager, oldest first; \<open>reconnectTimers\<close>, the delays of the
  timers that \<open>handleReconnection\<close> sets; and \<open>reconnectCalls\<close>, the number of
  invocations of \<open>handleReconnection\<close>.
\<close>

text \<open>
  The delay of a reconnection timer. JavaScript computes it in double precision: for a base
  delay that is an integer, the product with a power of two is exact as long as it stays
  below \<open>2 ^ 1024\<close>, and is an infinity beyond.
\<close>

datatype js_delay = Millis int | Overflow

record TpaSession =
  ws :: "WebSocket option"
  sessionId :: "string option"
  reconnectAttempts :: nat
  subscriptions :: "ExtendedStreamType list"
  settingsData :: AppSettings
  subscriptionSettingsHandler :: "(AppSettings \<Rightarrow> error + ExtendedStreamType list) option"
  config :: TpaSessionConfig
  emitted :: "event list"
  reconnectTimers :: "js_delay list"
  reconnectCalls :: nat

text \<open>
  Modelled from the spec: \<open>EventManager.emit\<close> of \<open>./events\<close> is not among the
  sources. The spec describes the session's events as an on/emit event emitter; \<open>emit\<close>
  is modelled as appending the event to the log \<open>emitted\<close> of the session, and as never
  throwing.
\<close>

definition emit :: "event \<Rightarrow> TpaSession \<Rightarrow> TpaSession" where
  "emit e s = s\<lparr>emitted := emitted s @ [e]\<rparr>"

text \<open>\<open>this.ws?.readyState === 1\<close>\<close>

definition ws_open :: "TpaSession \<Rightarrow> bool" where
  "ws_open s = (case ws s of None \<Rightarrow> False | Some w \<Rightarrow> readyState w = 1)"

subsection \<open>send\<close>

definition stateName :: "nat \<Rightarrow> string" where
  "stateName n =
     (if n = 0 then ''CONNECTING'' else if n = 1 then ''OPEN''
      else if n = 2 then ''CLOSING'' else if n = 3 then ''CLOSED'' else ''UNKNOWN'')"

text \<open>The body of the \<open>try\<close> block of \<open>send\<close>: \<open>Inl\<close> is the exception it throws.\<close>

definition send_body :: "TpaToCloudMessage \<Rightarrow> TpaSession \<Rightarrow> error + TpaSession" where
  "send_body message s =
     (case ws s of
        None \<Rightarrow> Inl (Error ''WebSocket connection not established'')
      | Some w \<Rightarrow>
          if readyState w \<noteq> 1 then
            Inl (Error (''WebSocket not connected (current state: '' @ stateName (readyState w) @ '')''))
          else if message = NotAnObject then Inl (Error ''Invalid message: must be an object'')
          else if message = NoTypeProperty then Inl (Error ''Invalid message: missing \"type\" property'')
          else (case sendFailure w of
                  Some m \<Rightarrow> Inl (Error (''Failed to send message: '' @ m))
                | None \<Rightarrow> Inr (s\<lparr>ws := Some (w\<lparr>written := written w @ [message]\<rparr>)\<rparr>)))"

text \<open>
  \<open>send\<close> returns the session after the call together with the exception that reaches
  the caller, if any: the \<open>catch\<close> block emits an \<open>error\<close> event and throws the error
  again.
\<close>

definition send :: "TpaToCloudMessage \<Rightarrow> TpaSession \<Rightarrow> TpaSession \<times> error option" where
  "send message s =
     (case send_body message s of
        Inr s' \<Rightarrow> (s', None)
      | Inl e \<Rightarrow> (emit (ErrorEvent (error_message e)) s, Some e))"

subsection \<open>Subscriptions\<close>

definition updateSubscriptions :: "TpaSession \<Rightarrow> TpaSession \<times> error option" where
  "updateSubscriptions s =
     send (TpaSubscriptionUpdate (packageName (config s)) (subscriptions s) (sessionId s)) s"

definition subscribe :: "ExtendedStreamType \<Rightarrow> TpaSession \<Rightarrow> TpaSession \<times> error option" where
  "subscribe type s =
     (let s1 = s\<lparr>subscriptions := set_add (subscriptions s) type\<rparr>
      in if ws_open s1 then updateSubscriptions s1 else (s1, None))"

definition unsubscribe :: "ExtendedStreamType \<Rightarrow> TpaSession \<Rightarrow> TpaSession \<times> error option" where
  "unsubscribe type s =
     (let s1 = s\<lparr>subscriptions := set_delete (subscriptions s) type\<rparr>
      in if ws_open s1 then updateSubscriptions s1 else (s1, None))"

text \<open>
  \<open>updateSubscriptionsFromSettings\<close> never throws: an exception of the handler or of
  \<open>send\<close> is caught and turned into an \<open>error\<close> event.
\<close>

definition updateSubscriptionsFromSettings :: "TpaSession \<Rightarrow> TpaSession" where
  "updateSubscriptionsFromSettings s =
     (case subscriptionSettingsHandler s of
        None \<Rightarrow> s
      | Some handler \<Rightarrow>
          (case handler (settingsData s) of
             Inl e \<Rightarrow> emit (ErrorEvent (''Failed to update subscriptions: '' @ error_message e)) s
           | Inr newSubscriptions \<Rightarrow>
               (let s1 = s\<lparr>subscriptions := foldl set_add [] newSubscriptions\<rparr>
                in if ws_open s1 then
                     (case updateSubscriptions s1 of
                        (s2, None) \<Rightarrow> s2
                      | (s2, Some e) \<Rightarrow>
                          emit (ErrorEvent (''Failed to update subscriptions: '' @ error_message e)) s2)
                   else s1)))"

subsection \<open>Reconnection\<close>

text \<open>
  \<open>this.config.maxReconnectAttempts || 3\<close> and \<open>this.config.reconnectDelay || 1000\<close>:
  an absent value and the value 0 both give the default. The numbers are modelled as
  integers.
\<close>

definition maxAttempts :: "TpaSessionConfig \<Rightarrow> int" where
  "maxAttempts c = (case maxReconnectAttempts c of None \<Rightarrow> 3 | Some n \<Rightarrow> if n = 0 then 3 else n)"

definition baseDelay :: "TpaSessionConfig \<Rightarrow> int" where
  "baseDelay c = (case reconnectDelay c of None \<Rightarrow> 1000 | Some d \<Rightarrow> if d = 0 then 1000 else d)"

definition permanentDisconnection :: event where
  "permanentDisconnection =
     DisconnectedEvent 4000 ''Maximum reconnection attempts exceeded'' False True"

text \<open>\<open>baseDelay * Math.pow(2, this.reconnectAttempts)\<close>\<close>

definition backoffDelay :: "int \<Rightarrow> nat \<Rightarrow> js_delay" where
  "backoffDelay d a = (if \<bar>d\<bar> * 2 ^ a < 2 ^ 1024 then Millis (d * 2 ^ a) else Overflow)"

text \<open>
  \<open>handleReconnection\<close> is an async method, and \<open>closeHandler\<close> calls it without
  awaiting it. The model has its three parts apart, so that other handlers can run in
  between, as they do in the program: \<open>handleReconnection\<close> is what a call does at once,
  up to its first \<open>await\<close> (it returns, emits the permanent disconnection, or counts the
  attempt and sets its timer); when the timer has fired, the call awaits \<open>connect\<close>;
  \<open>reconnectionSucceeded\<close> is what follows when \<open>connect\<close> resolves, and
  \<open>reconnectionFailed\<close> is the \<open>catch\<close> block, run when \<open>connect\<close> rejects.
  Both read the counter as it is by then. (The counter is a natural number; a double counts
  exactly up to \<open>2 ^ 53\<close>.)
\<close>

definition handleReconnection :: "TpaSession \<Rightarrow> TpaSession" where
  "handleReconnection s0 =
     (let s = s0\<lparr>reconnectCalls := Suc (reconnectCalls s0)\<rparr>
      in if \<not> autoReconnect (config s) \<or> sessionId s = None \<or> sessionId s = Some [] then s
         else if maxAttempts (config s) \<le> int (reconnectAttempts s) then emit permanentDisconnection s
         else
           (let delay = backoffDelay (baseDelay (config s)) (reconnectAttempts s)
            in s\<lparr>reconnectAttempts := Suc (reconnectAttempts s),
                  reconnectTimers := reconnectTimers s @ [delay]\<rparr>))"

definition reconnectionSucceeded :: "TpaSession \<Rightarrow> TpaSession" where
  "reconnectionSucceeded s = s\<lparr>reconnectAttempts := 0\<rparr>"

definition reconnectionFailed :: "error \<Rightarrow> TpaSession \<Rightarrow> TpaSession" where
  "reconnectionFailed e s =
     (let s1 = emit (ErrorEvent (''Reconnection failed: '' @ error_message e)) s
      in if maxAttempts (config s1) \<le> int (reconnectAttempts s1)
         then emit permanentDisconnection s1 else s1)"

definition isNormalClosure :: "int \<Rightarrow> bool" where
  "isNormalClosure code = (code = 1000 \<or> code = 1001 \<or> code = 1008)"

definition isManualStop :: "string \<Rightarrow> bool" where
  "isManualStop reason = (reason \<noteq> [] \<and> str_includes reason ''App stopped'')"

definition closeHandler :: "int \<Rightarrow> string \<Rightarrow> TpaSession \<Rightarrow> TpaSession" where
  "closeHandler code reason s =
     (let s1 = emit (DisconnectedEvent code reason (code = 1000 \<or> code = 1001) False) s
      in if \<not> isNormalClosure code \<and> \<not> isManualStop reason
         then handleReconnection s1 else s1)"

text \<open>
  A failing run of the reconnection, in any interleaving: calls of \<open>handleReconnection\<close>
  and rejections of the \<open>connect\<close>s that earlier calls await.
\<close>

datatype reconnection_step = CallMade | ConnectRejected error

fun afterStep :: "TpaSession \<Rightarrow> reconnection_step \<Rightarrow> TpaSession" where
  "afterStep s CallMade = handleReconnection s"
| "afterStep s (ConnectRejected e) = reconnectionFailed e s"

definition calls :: "reconnection_step list \<Rightarrow> nat" where
  "calls steps = length (filter (\<lambda>x. x = CallMade) steps)"

subsection \<open>The run of the handlers in time\<close>

text \<open>
  To follow a failing reconnection in time, the handlers are run as the event loop of Node
  runs them: one pending task at a time, the earliest first, tasks due at the same time in
  the order in which they were set. The tasks are the timer of a \<open>handleReconnection\<close>
  call (when it fires, the call goes on to \<open>connect\<close>), the \<open>error\<close> and \<open>close\<close>
  events of a socket, and the timer that \<open>connect\<close> sets for the connection (when it
  fires, \<open>connect\<close> emits an \<open>error\<close> event and rejects, and the \<open>catch\<close> block of
  the call that awaits it runs). The model covers sockets that never open: \<open>connect\<close>
  then ends by its timer only, since its \<open>error\<close> handler emits the event and rejects
  nothing.
\<close>

datatype task =
    TimerFires
  | SocketErrors string
  | SocketCloses int string
  | ConnectTimesOut

record event_loop =
  session :: TpaSession
  clock :: int
  tasks :: "(int \<times> task) list"
  timeline :: "(int \<times> event) list"
  connects :: "int list"

fun enqueue :: "int \<times> task \<Rightarrow> (int \<times> task) list \<Rightarrow> (int \<times> task) list" where
  "enqueue x [] = [x]"
| "enqueue x (y # ys) = (if fst y \<le> fst x then y # enqueue x ys else x # y # ys)"

text \<open>
  \<open>setTimeout\<close> of Node: a delay below 1 or above \<open>2 ^ 31 - 1\<close> milliseconds, or one
  that is no finite number, is set to 1.
\<close>

definition timerDue :: "int \<Rightarrow> js_delay \<Rightarrow> int" where
  "timerDue t delay =
     (case delay of
        Millis d \<Rightarrow> if 1 \<le> d \<and> d \<le> 2147483647 then t + d else t + 1
      | Overflow \<Rightarrow> t + 1)"

text \<open>\<open>const timeoutMs = 5000\<close> of \<open>connect\<close>.\<close>

definition timeoutMs :: int where
  "timeoutMs = 5000"

text \<open>
  \<open>connect\<close>, called by a reconnection at the time of the clock: the session gets a new
  socket, which is connecting, and the timer of the connection is set. What the new socket
  does then is the server's part: \<open>server t\<close> gives the events of a socket made at time
  \<open>t\<close>. The URL of the cloud is taken to be configured (without it \<open>connect\<close>
  rejects at once). When the socket before is not closed, \<open>connect\<close> closes it first;
  the model does not follow such runs (the result is \<open>None\<close>).
\<close>

definition connect :: "(int \<Rightarrow> (int \<times> task) list) \<Rightarrow> event_loop \<Rightarrow> event_loop option" where
  "connect server l =
     (if (case ws (session l) of None \<Rightarrow> False | Some w \<Rightarrow> readyState w \<noteq> 3) then None
      else Some (l\<lparr>session := (session l)\<lparr>ws := Some \<lparr>readyState = 0, written = [], sendFailure = None\<rparr>\<rparr>,
                    connects := connects l @ [clock l],
                    tasks := foldl (\<lambda>q x. enqueue x q) (tasks l)
                               (server (clock l) @ [(clock l + timeoutMs, ConnectTimesOut)])\<rparr>))"

text \<open>The timers that a handler has set: the new entries of \<open>reconnectTimers\<close>.\<close>

definition newTimers :: "TpaSession \<Rightarrow> TpaSession \<Rightarrow> js_delay list" where
  "newTimers before after = drop (length (reconnectTimers before)) (reconnectTimers after)"

definition socketClosed :: "TpaSession \<Rightarrow> TpaSession" where
  "socketClosed s = s\<lparr>ws := map_option (\<lambda>w. w\<lparr>readyState := 3\<rparr>) (ws s)\<rparr>"

fun runTask :: "(int \<Rightarrow> (int \<times> task) list) \<Rightarrow> task \<Rightarrow> event_loop \<Rightarrow> event_loop option" where
  "runTask server TimerFires l = connect server l"
| "runTask server (SocketErrors m) l = Some (l\<lparr>session := emit (ErrorEvent m) (session l)\<rparr>)"
| "runTask server (SocketCloses code reason) l =
     (let s = closeHandler code reason (socketClosed (session l))
      in Some (l\<lparr>session := s,
                  tasks := foldl (\<lambda>q d. enqueue (timerDue (clock l) d, TimerFires) q) (tasks l)
                             (newTimers (session l) s)\<rparr>))"
| "runTask server ConnectTimesOut l =
     Some (l\<lparr>session :=
               reconnectionFailed (Error ''Connection timeout'')
                 (emit (ErrorEvent ''Connection timeout after 5000ms'') (session l))\<rparr>)"

text \<open>
  One turn of the loop: the earliest task is taken off, the clock is set to its time, the task
  runs, and the events it emitted enter the timeline with that time. Without a task the
  loop stays as it is.
\<close>

definition turn :: "(int \<Rightarrow> (int \<times> task) list) \<Rightarrow> event_loop \<Rightarrow> event_loop option" where
  "turn server l =
     (case tasks l of
        [] \<Rightarrow> Some l
      | (t, k) # rest \<Rightarrow>
          (case runTask server k (l\<lparr>clock := t, tasks := rest\<rparr>) of
             None \<Rightarrow> None
           | Some l' \<Rightarrow>
               Some (l'\<lparr>timeline := timeline l
                         @ map (Pair t) (drop (length (emitted (session l))) (emitted (session l')))\<rparr>)))"

fun turns :: "(int \<Rightarrow> (int \<times> task) list) \<Rightarrow> nat \<Rightarrow> event_loop \<Rightarrow> event_loop option" where
  "turns server 0 l = Some l"
| "turns server (Suc n) l = (case turn server l of None \<Rightarrow> None | Some l' \<Rightarrow> turns server n l')"

text \<open>
  A server that refuses every connection: the socket emits \<open>error\<close> and then \<open>close\<close>
  with code 1006 and no reason, \<open>latency\<close> milliseconds after it was made.
\<close>

definition refusingServer :: "int \<Rightarrow> int \<Rightarrow> (int \<times> task) list" where
  "refusingServer latency t =
     [(t + latency, SocketErrors ''connect ECONNREFUSED''), (t + latency, SocketCloses 1006 [])]"

text \<open>The times at which the permanent disconnection was emitted.\<close>

definition permanentAt :: "event_loop \<Rightarrow> int list" where
  "permanentAt l = map fst (filter (\<lambda>x. snd x = permanentDisconnection) (timeline l))"

subsection \<open>Incoming messages\<close>

text \<open>
  Modelled from the spec: the enum \<open>StreamType\<close> and the functions
  \<open>createTranscriptionStream\<close> and \<open>createTranslationStream\<close> of the SDK's types
  module are not among the sources. The spec names the base types \<open>transcription\<close> and
  \<open>translation\<close> and gives the language-parameterized keys as \<open>transcription:en-US\<close>
  and \<open>translation:es-ES:en-US\<close>; the other three values follow the enum's names.
\<close>

definition TRANSCRIPTION :: ExtendedStreamType where
  "TRANSCRIPTION = ''transcription''"

definition TRANSLATION :: ExtendedStreamType where
  "TRANSLATION = ''translation''"

definition AUDIO_CHUNK :: ExtendedStreamType where
  "AUDIO_CHUNK = ''audio_chunk''"

definition HEAD_POSITION :: ExtendedStreamType where
  "HEAD_POSITION = ''head_position''"

definition BUTTON_PRESS :: ExtendedStreamType where
  "BUTTON_PRESS = ''button_press''"

text \<open>
  Modelled from the spec: \<open>createTranscriptionStream\<close> is not among the sources; the spec
  writes the key of a transcription stream in a language as \<open>transcription:en-US\<close>.
\<close>

definition createTranscriptionStream :: "string \<Rightarrow> ExtendedStreamType" where
  "createTranscriptionStream language = TRANSCRIPTION @ '':'' @ language"

text \<open>
  Modelled from the spec: \<open>createTranslationStream\<close> is not among the sources; the spec
  writes the key of a translation stream as \<open>translation:es-ES:en-US\<close>.
\<close>

definition createTranslationStream :: "string \<Rightarrow> string \<Rightarrow> ExtendedStreamType" where
  "createTranslationStream sourceLanguage targetLanguage =
     TRANSLATION @ '':'' @ sourceLanguage @ '':'' @ targetLanguage"

text \<open>
  The messages of the cloud, decoded by their \<open>type\<close> tag (the type guards of the types
  module test that tag). \<open>NullMessage\<close> and \<open>UntypedMessage\<close> are the values that
  \<open>validateMessage\<close> refuses, \<open>BinaryMessage\<close> is an \<open>ArrayBuffer\<close>. The
  acknowledgement of the connection, settings updates, photo responses and dashboard
  messages, whose handling runs in the settings manager, the dashboard and the photo
  requests, are outside this model.
\<close>

datatype CloudToTpaMessage =
    NullMessage
  | UntypedMessage
  | BinaryMessage string
  | AudioChunk string
  | TpaConnectionError "string option"
  | DataStream string "StreamData option"
  | AppStopped "string option"
  | CustomMessage string
  | MediaUpdate string
  | Unrecognized string

text \<open>A string-valued property is truthy when it is present and not empty.\<close>

definition truthy :: "string option \<Rightarrow> bool" where
  "truthy v = (case v of None \<Rightarrow> False | Some x \<Rightarrow> x \<noteq> [])"

definition validateMessage :: "CloudToTpaMessage \<Rightarrow> bool" where
  "validateMessage message =
     (case message of
        BinaryMessage _ \<Rightarrow> True
      | NullMessage \<Rightarrow> False
      | UntypedMessage \<Rightarrow> False
      | _ \<Rightarrow> True)"

text \<open>
  \<open>sanitizeEventData\<close>; \<open>text_field\<close> and \<open>position\<close> are present when the
  property is a string. The first argument is the clock.
\<close>

definition sanitizeEventData :: "int \<Rightarrow> ExtendedStreamType \<Rightarrow> StreamData option \<Rightarrow> EventData" where
  "sanitizeEventData now streamType data =
     (case data of
        None \<Rightarrow> EmptyObject
      | Some d \<Rightarrow>
          if streamType = TRANSCRIPTION then
            (if text_field d = None then DefaultTranscription now else Payload d)
          else if streamType = HEAD_POSITION then
            (if position d = None then DefaultHeadPosition now else Payload d)
          else if streamType = BUTTON_PRESS then
            (if \<not> truthy (buttonId d) \<or> \<not> truthy (pressType d)
             then DefaultButtonPress now else Payload d)
          else Payload d)"

text \<open>
  The stream key of a \<open>data_stream\<close> message. Reading \<open>transcribeLanguage\<close> of a
  payload that is \<open>null\<close> raises a \<open>TypeError\<close>.
\<close>

definition messageStreamType :: "string \<Rightarrow> StreamData option \<Rightarrow> error + ExtendedStreamType" where
  "messageStreamType streamType data =
     (if streamType = TRANSCRIPTION then
        (case data of
           None \<Rightarrow> Inl (Error ''Cannot read properties of null'')
         | Some d \<Rightarrow>
             (case transcribeLanguage d of
                None \<Rightarrow> Inr streamType
              | Some l \<Rightarrow> if l \<noteq> [] then Inr (createTranscriptionStream l) else Inr streamType))
      else if streamType = TRANSLATION then
        (case data of
           None \<Rightarrow> Inl (Error ''Cannot read properties of null'')
         | Some d \<Rightarrow>
             (case (transcribeLanguage d, translateLanguage d) of
                (Some l, Some t) \<Rightarrow>
                  if l \<noteq> [] \<and> t \<noteq> [] then Inr (createTranslationStream l t) else Inr streamType
              | _ \<Rightarrow> Inr streamType))
      else Inr streamType)"

definition handleBinaryMessage :: "string \<Rightarrow> TpaSession \<Rightarrow> TpaSession" where
  "handleBinaryMessage buffer s =
     (if \<not> set_has (subscriptions s) AUDIO_CHUNK then s
      else if length buffer = 0 then emit (ErrorEvent ''Received empty binary message'') s
      else emit (AudioChunkEvent buffer) s)"

text \<open>
  \<open>handleMessage\<close>. Its two \<open>try\<close> blocks catch every exception of the branches and
  emit an \<open>error\<close> event instead; the only branch modelled here that can raise one is
  the computation of the stream key.
\<close>

definition handleMessage :: "int \<Rightarrow> CloudToTpaMessage \<Rightarrow> TpaSession \<Rightarrow> TpaSession" where
  "handleMessage now message s =
     (if \<not> validateMessage message then emit (ErrorEvent ''Invalid message format received'') s
      else case message of
        BinaryMessage buffer \<Rightarrow> handleBinaryMessage buffer s
      | TpaConnectionError m \<Rightarrow>
          emit (ErrorEvent (if truthy m then (case m of Some x \<Rightarrow> x | None \<Rightarrow> [])
                            else ''Unknown connection error'')) s
      | AudioChunk chunk \<Rightarrow>
          if set_has (subscriptions s) AUDIO_CHUNK then emit (AudioChunkEvent chunk) s else s
      | DataStream streamType data \<Rightarrow>
          (case messageStreamType streamType data of
             Inl e \<Rightarrow> emit (ErrorEvent (''Error processing message: '' @ error_message e)) s
           | Inr key \<Rightarrow>
               if key \<noteq> [] \<and> set_has (subscriptions s) key
               then emit (StreamEvent key (sanitizeEventData now key data)) s
               else s)
      | AppStopped reason \<Rightarrow>
          (let displayReason =
                 ''App stopped: '' @ (if truthy reason then (case reason of Some x \<Rightarrow> x | None \<Rightarrow> [])
                                      else ''unknown'');
               s1 = emit (DisconnectedEvent 1000 displayReason True False) s
           in s1\<lparr>reconnectAttempts := 0\<rparr>)
      | CustomMessage m \<Rightarrow> emit (CustomMessageEvent m) s
      | MediaUpdate m \<Rightarrow> emit (MediaEvent m) s
      | Unrecognized t \<Rightarrow> emit (ErrorEvent (''Unrecognized message type: '' @ t)) s
      | _ \<Rightarrow> s)"

subsection \<open>The message handler of the socket\<close>

text \<open>
  The value \<open>JSON.parse\<close> returns, and the three tests the handler makes on it.
  Numbers are modelled as integers.
\<close>

datatype json =
    JNull
  | JBool bool
  | JNumber int
  | JString string
  | JArray "json list"
  | JObject "(string \<times> json) list"

fun falsy :: "json \<Rightarrow> bool" where
  "falsy JNull = True"
| "falsy (JBool b) = (\<not> b)"
| "falsy (JNumber n) = (n = 0)"
| "falsy (JString x) = (x = [])"
| "falsy _ = False"

fun typeof_object :: "json \<Rightarrow> bool" where
  "typeof_object JNull = True"
| "typeof_object (JArray _) = True"
| "typeof_object (JObject _) = True"
| "typeof_object _ = False"

text \<open>\<open>'type' in message\<close>, for a message that is an object or an array.\<close>

fun type_in :: "json \<Rightarrow> bool" where
  "type_in (JObject kvs) = (map_of kvs ''type'' \<noteq> None)"
| "type_in _ = False"

text \<open>
  The frame the \<open>ws\<close> library hands to the handler: a \<open>Buffer\<close> (its bytes), a
  string (its code units), an \<open>ArrayBuffer\<close>, or anything else.
\<close>

datatype ws_data =
    BufferData "nat list"
  | StringData js_string
  | ArrayBufferData "nat list"
  | OtherData

text \<open>What the handler passes to \<open>handleMessage\<close>: an audio chunk or a parsed message.\<close>

datatype inbound =
    AudioChunkObject "nat list"
  | ParsedMessage json

text \<open>
  \<open>try { body } catch (error) { handler }\<close>: the body has run to a session and,
  when it threw, to the exception.
\<close>

definition try_catch ::
  "TpaSession \<times> error option \<Rightarrow> (error \<Rightarrow> TpaSession \<Rightarrow> TpaSession \<times> error option)
     \<Rightarrow> TpaSession \<times> error option" where
  "try_catch body handler = (case body of (s, None) \<Rightarrow> (s, None) | (s, Some e) \<Rightarrow> handler e s)"

text \<open>
  The handler is modelled over any \<open>JSON.parse\<close> (the argument \<open>parse\<close>, \<open>Inl\<close> its
  \<open>SyntaxError\<close>), any decoding \<open>data.toString('utf8')\<close> of a buffer (the argument
  \<open>toString\<close>) and any \<open>handleMessage\<close> (the argument \<open>hm\<close>, which may even throw).
\<close>

definition json_messages ::
  "(js_string \<Rightarrow> error + json) \<Rightarrow> (nat list \<Rightarrow> js_string)
     \<Rightarrow> (inbound \<Rightarrow> TpaSession \<Rightarrow> TpaSession \<times> error option)
     \<Rightarrow> ws_data \<Rightarrow> TpaSession \<Rightarrow> TpaSession \<times> error option" where
  "json_messages parse toString hm data s =
     (case (case data of
              StringData x \<Rightarrow> Inr x
            | BufferData b \<Rightarrow> Inr (toString b)
            | _ \<Rightarrow> Inl (Error ''Unknown message format'')) of
        Inl e \<Rightarrow> (s, Some e)
      | Inr jsonData \<Rightarrow>
          if jsonData = [] \<or> trim jsonData = [] then
            (emit (ErrorEvent ''Received empty JSON message'') s, None)
          else
            (case parse jsonData of
               Inl e \<Rightarrow> (s, Some e)
             | Inr message \<Rightarrow>
                 if falsy message \<or> \<not> typeof_object message \<or> \<not> type_in message then
                   (emit (ErrorEvent ''Malformed message: missing type property'') s, None)
                 else hm (ParsedMessage message) s))"

definition messageHandler ::
  "(js_string \<Rightarrow> error + json) \<Rightarrow> (nat list \<Rightarrow> js_string)
     \<Rightarrow> (inbound \<Rightarrow> TpaSession \<Rightarrow> TpaSession \<times> error option)
     \<Rightarrow> ws_data \<Rightarrow> bool \<Rightarrow> TpaSession \<Rightarrow> TpaSession \<times> error option" where
  "messageHandler parse toString hm data isBinary s =
     try_catch
       (case (isBinary, data) of
          (True, BufferData bytes) \<Rightarrow>
            try_catch
              (if length bytes = 0 then (emit (ErrorEvent ''Received empty binary data'') s, None)
               else hm (AudioChunkObject bytes) s)
              (\<lambda>e s'. (emit (ErrorEvent (''Failed to process binary message: '' @ error_message e)) s', None))
        | (_, ArrayBufferData _) \<Rightarrow> (s, None)
        | _ \<Rightarrow>
            try_catch (json_messages parse toString hm data s)
              (\<lambda>e s'. (emit (ErrorEvent (''Failed to parse JSON message: '' @ error_message e)) s', None)))
       (\<lambda>e s'. (emit (ErrorEvent (''Unhandled message error: '' @ error_message e)) s', None))"

section \<open>The user model of the cloud (cloud/src/models/user.model.ts)\<close>

text \<open>
  The user document, as far as its app lists and its email go. \<open>installedApps\<close> is
  declared optional; dates are numbers; the email is a string of code units.
\<close>

record InstalledApp =
  installedPackageName :: string
  installedDate :: int

record UserDocument =
  email :: js_string
  runningApps :: "string list"
  installedApps :: "InstalledApp list option"

subsection \<open>The setters of the schema\<close>

text \<open>
  The path \<open>email\<close> is declared with \<open>trim: true\<close> and \<open>lowercase: true\<close>. mongoose
  turns each into a setter of the path and runs the setters, the last declared first, on
  every value that is assigned to \<open>email\<close> of a document: a non-empty string is put in
  lower case, and a non-empty result is trimmed. \<open>String.prototype.toLowerCase\<close> is the
  argument \<open>toLowerCase\<close> here and below: the model holds for whatever it maps a string
  to.
\<close>

definition setEmail :: "(js_string \<Rightarrow> js_string) \<Rightarrow> js_string \<Rightarrow> js_string" where
  "setEmail toLowerCase v =
     (let v1 = (if v \<noteq> [] then toLowerCase v else v)
      in if v1 \<noteq> [] then trim v1 else v1)"

subsection \<open>The validators of the schema\<close>

text \<open>
  The validator of \<open>email\<close> tests the regular expression
  \<^verbatim>\<open>/^[^\s@]+@[^\s@]+\.[^\s@]+$/\<close>: a part without white space and without \<open>@\<close>,
  then \<open>@\<close> (code unit 64), then such a part that has a dot (code unit 46) neither at
  its start nor at its end. The first \<open>@\<close> of the string is the one that the expression
  matches, since no part may hold another.
\<close>

definition emailPart :: "js_string \<Rightarrow> bool" where
  "emailPart x = (x \<noteq> [] \<and> list_all (\<lambda>c. \<not> js_whitespace c \<and> c \<noteq> 64) x)"

definition emailFormat :: "js_string \<Rightarrow> bool" where
  "emailFormat e =
     (emailPart (takeWhile (\<lambda>c. c \<noteq> 64) e)
      \<and> (case dropWhile (\<lambda>c. c \<noteq> 64) e of
           [] \<Rightarrow> False
         | at # domain \<Rightarrow> emailPart domain \<and> 46 \<in> set (butlast (tl domain))))"

text \<open>\<open>new Set(apps).size === apps.length\<close>\<close>

definition uniqueEntries :: "string list \<Rightarrow> bool" where
  "uniqueEntries apps = (length (new_Set apps) = length apps)"

text \<open>
  The messages of the validators that fail on a document. mongoose validates the paths
  of a document that are required, new or modified since it was loaded, and which these
  are depends on the history of the document: they are the argument \<open>validated\<close>, a
  list of path names. On \<open>email\<close> the validators are \<open>required\<close>, which an empty string
  fails as a missing one does, and the format; on \<open>runningApps\<close> the uniqueness; on
  \<open>installedApps\<close> the uniqueness of the package names and the required
  \<open>packageName\<close> of every installed app.
\<close>

definition validationErrors :: "string list \<Rightarrow> UserDocument \<Rightarrow> string list" where
  "validationErrors validated u =
     (if ''email'' \<in> set validated then
        (if email u = [] then [''Path email is required'']
         else if emailFormat (email u) then [] else [''Invalid email format''])
      else [])
     @ (if ''runningApps'' \<in> set validated \<and> \<not> uniqueEntries (runningApps u)
        then [''Running apps must be unique''] else [])
     @ (case installedApps u of
          None \<Rightarrow> []
        | Some apps \<Rightarrow>
            if ''installedApps'' \<in> set validated then
              (if uniqueEntries (map installedPackageName apps) then []
               else [''Installed apps must be unique''])
              @ (if list_all (\<lambda>app. installedPackageName app \<noteq> []) apps then []
                 else [''Path packageName is required''])
            else [])"

subsection \<open>Saving\<close>

text \<open>
  The middleware \<open>UserSchema.pre('save')\<close>. Its assignment to \<open>email\<close> passes through
  the setters of the path. An array is truthy, also when it is empty, so the second test
  always passes.
\<close>

definition pre_save :: "(js_string \<Rightarrow> js_string) \<Rightarrow> UserDocument \<Rightarrow> UserDocument" where
  "pre_save toLowerCase u =
     (let u1 = (if email u \<noteq> []
                then u\<lparr>email := setEmail toLowerCase (toLowerCase (email u))\<rparr> else u)
      in u1\<lparr>runningApps := new_Set (runningApps u1)\<rparr>)"

text \<open>
  \<open>save\<close> of mongoose validates the document first and rejects it when a validator
  fails, before any \<open>pre('save')\<close> middleware of the schema runs; then the middleware
  runs, and then the document is written. The write may fail as well (the argument
  \<open>writeFailure\<close>; \<open>None\<close> when the database accepts the document). The result is the
  document as it is in memory after the call, and the error with which \<open>save\<close> rejected,
  if it did; a document is stored when there is no error, and is then the one returned.
\<close>

datatype save_error = ValidationError "string list" | WriteError string

definition save ::
  "(js_string \<Rightarrow> js_string) \<Rightarrow> string list \<Rightarrow> string option \<Rightarrow> UserDocument
     \<Rightarrow> UserDocument \<times> save_error option" where
  "save toLowerCase validated writeFailure u =
     (if validationErrors validated u \<noteq> []
      then (u, Some (ValidationError (validationErrors validated u)))
      else (pre_save toLowerCase u, map_option WriteError writeFailure))"

subsection \<open>The methods of the document\<close>

definition isAppInstalled :: "UserDocument \<Rightarrow> string \<Rightarrow> bool" where
  "isAppInstalled u name =
     (case installedApps u of
        None \<Rightarrow> False
      | Some apps \<Rightarrow> list_ex (\<lambda>app. installedPackageName app = name) apps)"

text \<open>
  Each method changes the document in memory and then awaits \<open>save\<close>; when \<open>save\<close>
  rejects, so does the method, and the change stays in memory. \<open>now\<close> is the clock
  (\<open>new Date()\<close>).
\<close>

definition installApp ::
  "(js_string \<Rightarrow> js_string) \<Rightarrow> string list \<Rightarrow> string option \<Rightarrow> string \<Rightarrow> int
     \<Rightarrow> UserDocument \<Rightarrow> UserDocument \<times> save_error option" where
  "installApp toLowerCase validated writeFailure name now u =
     (if \<not> isAppInstalled u name then
        (let apps = (case installedApps u of None \<Rightarrow> [] | Some xs \<Rightarrow> xs)
         in save toLowerCase validated writeFailure
              (u\<lparr>installedApps :=
                    Some (apps @ [\<lparr>installedPackageName = name, installedDate = now\<rparr>])\<rparr>))
      else (u, None))"

definition uninstallApp ::
  "(js_string \<Rightarrow> js_string) \<Rightarrow> string list \<Rightarrow> string option \<Rightarrow> string
     \<Rightarrow> UserDocument \<Rightarrow> UserDocument \<times> save_error option" where
  "uninstallApp toLowerCase validated writeFailure name u =
     (if isAppInstalled u name then
        (let apps = (case installedApps u of None \<Rightarrow> [] | Some xs \<Rightarrow> xs)
         in save toLowerCase validated writeFailure
              (u\<lparr>installedApps :=
                    Some (filter (\<lambda>app. installedPackageName app \<noteq> name) apps)\<rparr>))
      else (u, None))"

definition addRunningApp ::
  "(js_string \<Rightarrow> js_string) \<Rightarrow> string list \<Rightarrow> string option \<Rightarrow> string
     \<Rightarrow> UserDocument \<Rightarrow> UserDocument \<times> save_error option" where
  "addRunningApp toLowerCase validated writeFailure appName u =
     (if appName \<notin> set (runningApps u)
      then save toLowerCase validated writeFailure
             (u\<lparr>runningApps := runningApps u @ [appName]\<rparr>)
      else (u, None))"

definition removeRunningApp ::
  "(js_string \<Rightarrow> js_string) \<Rightarrow> string list \<Rightarrow> string option \<Rightarrow> string
     \<Rightarrow> UserDocument \<Rightarrow> UserDocument \<times> save_error option" where
  "removeRunningApp toLowerCase validated writeFailure appName u =
     (if appName \<in> set (runningApps u)
      then save toLowerCase validated writeFailure
             (u\<lparr>runningApps := filter (\<lambda>app. app \<noteq> appName) (runningApps u)\<rparr>)
      else (u, None))"

text \<open>
  A new document with the defaults of the schema; \<open>e\<close> is its email as the setters left
  it. The operations on a document come each with the paths that its \<open>save\<close> validates
  and with the outcome of its write; \<open>Save\<close> is a \<open>save\<close> by itself, and also a
  method that changes other fields of the document and saves it (\<open>setLocation\<close>,
  \<open>updateAppSettings\<close>). \<open>operations\<close> gives the document in memory after a
  sequence of them, whether or not they rejected.
\<close>

definition newUserDocument :: "js_string \<Rightarrow> UserDocument" where
  "newUserDocument e = \<lparr>email = e, runningApps = [], installedApps = Some []\<rparr>"

datatype user_op =
    InstallApp string int "string list" "string option"
  | UninstallApp string "string list" "string option"
  | AddRunningApp string "string list" "string option"
  | RemoveRunningApp string "string list" "string option"
  | Save "string list" "string option"

fun apply_user_op ::
  "(js_string \<Rightarrow> js_string) \<Rightarrow> UserDocument \<Rightarrow> user_op \<Rightarrow> UserDocument \<times> save_error option" where
  "apply_user_op lc u (InstallApp name now v w) = installApp lc v w name now u"
| "apply_user_op lc u (UninstallApp name v w) = uninstallApp lc v w name u"
| "apply_user_op lc u (AddRunningApp name v w) = addRunningApp lc v w name u"
| "apply_user_op lc u (RemoveRunningApp name v w) = removeRunningApp lc v w name u"
| "apply_user_op lc u (Save v w) = save lc v w u"

definition operations ::
  "(js_string \<Rightarrow> js_string) \<Rightarrow> UserDocument \<Rightarrow> user_op list \<Rightarrow> UserDocument" where
  "operations lc u ops = foldl (\<lambda>v x. fst (apply_user_op lc v x)) u ops"

definition installedPackageNames :: "UserDocument \<Rightarrow> string list" where
  "installedPackageNames u =
     (case installedApps u of None \<Rightarrow> [] | Some apps \<Rightarrow> map installedPackageName apps)"

section \<open>The user session of the cloud\<close>

text \<open>
  Modelled from the spec: the UserSessionManager (the session service of the cloud) is
  not among the sources. The record is the spec's \<open>UserSession\<close>; a session is ACTIVE
  while \<open>glassesConnection\<close> is bound and DISCONNECTED while it is not and
  \<open>disconnectedAt\<close> is set. Sockets are numbered, times are milliseconds.
\<close>

datatype ConnectionState = CONNECTING | ACK_PENDING | ACTIVE | UNHEALTHY | CLOSED

record TpaConnection =
  tpaSocket :: nat
  connectionState :: ConnectionState
  lastHealthCheckAt :: int

record UserSession =
  userSessionId :: string
  userId :: string
  startTime :: int
  glassesConnection :: "nat option"
  disconnectedAt :: "int option"
  sessionInstalledApps :: "string list"
  activeAppSessions :: "string list"
  loadingApps :: "string list"
  appConnections :: "(string \<times> TpaConnection) list"
  appSubscriptions :: "(string \<times> ExtendedStreamType list) list"
  isTranscribing :: bool

text \<open>Modelled from the spec: the default grace period, 5 minutes.\<close>

definition defaultGracePeriod :: int where
  "defaultGracePeriod = 5 * 60 * 1000"

text \<open>
  Modelled from the spec: on the close of the glasses socket, \<open>disconnectedAt\<close> is set to
  the time of the close and the session becomes DISCONNECTED; TPA connections remain
  untouched.
\<close>

definition glassesSocketClosed :: "int \<Rightarrow> UserSession \<Rightarrow> UserSession" where
  "glassesSocketClosed now u = u\<lparr>glassesConnection := None, disconnectedAt := Some now\<rparr>"

text \<open>
  Modelled from the spec: a session is DISCONNECTED while no glasses socket is bound and
  \<open>disconnectedAt\<close> is set.
\<close>

definition isDisconnected :: "UserSession \<Rightarrow> bool" where
  "isDisconnected u = (glassesConnection u = None \<and> disconnectedAt u \<noteq> None)"

text \<open>
  Modelled from the spec: the reconnect arrives within the grace period when less than the
  grace period has passed since \<open>disconnectedAt\<close>.
\<close>

definition withinGracePeriod :: "int \<Rightarrow> int \<Rightarrow> UserSession \<Rightarrow> bool" where
  "withinGracePeriod grace now u =
     (case disconnectedAt u of None \<Rightarrow> False | Some t \<Rightarrow> now - t < grace)"

text \<open>
  Modelled from the spec: a new session is ACTIVE, bound to the socket, with no apps running.
\<close>

definition newUserSession :: "string \<Rightarrow> string \<Rightarrow> int \<Rightarrow> nat \<Rightarrow> UserSession" where
  "newUserSession sid uid now socket =
     \<lparr>userSessionId = sid, userId = uid, startTime = now, glassesConnection = Some socket,
      disconnectedAt = None, sessionInstalledApps = [], activeAppSessions = [],
      loadingApps = [], appConnections = [], appSubscriptions = [], isTranscribing = False\<rparr>"

text \<open>
  Modelled from the spec: \<open>createOrResume(userId, newGlassesSocket)\<close>. Without a
  session of the user, a new session is created. A session that is DISCONNECTED and within
  its grace period gets the new socket and loses \<open>disconnectedAt\<close>, and every ACTIVE
  TpaConnection is notified of the resumption. After the grace period the stale session is
  discarded for a fresh one. A session that still has a socket is bound to the new one
  (P1). The result is the session table and the packages notified; \<open>sid\<close> is the
  identifier a new session would get.
\<close>

definition createOrResume ::
  "int \<Rightarrow> int \<Rightarrow> string \<Rightarrow> string \<Rightarrow> nat \<Rightarrow> (string \<rightharpoonup> UserSession)
     \<Rightarrow> (string \<rightharpoonup> UserSession) \<times> string list" where
  "createOrResume grace now sid uid socket sessions =
     (case sessions uid of
        None \<Rightarrow> (sessions(uid \<mapsto> newUserSession sid uid now socket), [])
      | Some u \<Rightarrow>
          if isDisconnected u then
            (if withinGracePeriod grace now u then
               (sessions(uid \<mapsto> u\<lparr>glassesConnection := Some socket, disconnectedAt := None\<rparr>),
                map fst (filter (\<lambda>(name, c). connectionState c = ACTIVE) (appConnections u)))
             else (sessions(uid \<mapsto> newUserSession sid uid now socket), []))
          else (sessions(uid \<mapsto> u\<lparr>glassesConnection := Some socket\<rparr>), []))"

section \<open>Auxiliary definitions and example values\<close>

definition exampleSession :: TpaSession where
  "exampleSession =
     \<lparr>ws = None, sessionId = Some ''session-1'', reconnectAttempts = 0,
      subscriptions = [''button_press''], settingsData = [], subscriptionSettingsHandler = None,
      config = \<lparr>packageName = ''com.acme.app'', apiKey = ''key'', autoReconnect = True,
                maxReconnectAttempts = Some 3, reconnectDelay = Some 1000\<rparr>,
      emitted = [], reconnectTimers = [], reconnectCalls = 0\<rparr>"

definition openSocket :: WebSocket where
  "openSocket = \<lparr>readyState = 1, written = [], sendFailure = None\<rparr>"

definition closedSocketSession :: TpaSession where
  "closedSocketSession = exampleSession\<lparr>ws := Some (openSocket\<lparr>readyState := 3\<rparr>)\<rparr>"

definition openSocketSession :: TpaSession where
  "openSocketSession = exampleSession\<lparr>ws := Some openSocket\<rparr>"

text \<open>The frame that \<open>ws.send\<close> accepted last.\<close>

definition lastWritten :: "TpaSession \<Rightarrow> TpaToCloudMessage option" where
  "lastWritten s =
     (case ws s of
        None \<Rightarrow> None
      | Some w \<Rightarrow> if written w = [] then None else Some (last (written w)))"

text \<open>
  Reconnection is allowed: \<open>autoReconnect\<close> is set and the session identifier is a
  non-empty string.
\<close>

definition enabled :: "TpaSession \<Rightarrow> bool" where
  "enabled s = (autoReconnect (config s) \<and> sessionId s \<noteq> None \<and> sessionId s \<noteq> Some [])"

text \<open>
  The failing input of the reconnection: a session with the default configuration (3 attempts,
  base delay 1000 ms) whose socket closes abnormally (code 1006) at time 0, and a server that
  refuses every connection from then on.
\<close>

definition droppedSession :: event_loop where
  "droppedSession =
     \<lparr>session = openSocketSession\<lparr>subscriptions := []\<rparr>, clock = 0,
      tasks = [(0, SocketCloses 1006 [])], timeline = [], connects = []\<rparr>"

definition englishTranscript :: StreamData where
  "englishTranscript =
     \<lparr>text_field = Some ''hello'', transcribeLanguage = Some ''en-US'', translateLanguage = None,
      position = None, buttonId = None, pressType = None\<rparr>"

definition plainTranscript :: StreamData where
  "plainTranscript = englishTranscript\<lparr>text_field := Some ''hi'', transcribeLanguage := None\<rparr>"

text \<open>A \<open>JSON.parse\<close> for the examples: it knows three texts and rejects the rest.\<close>

definition exampleParse :: "js_string \<Rightarrow> error + json" where
  "exampleParse x =
     (if x = units ''{\"text\":\"hi\"}'' then Inr (JObject [(''text'', JString ''hi'')])
      else if x = units ''[1]'' then Inr (JArray [JNumber 1])
      else if x = units ''{\"type\":\"app_stopped\"}''
        then Inr (JObject [(''type'', JString ''app_stopped'')])
      else Inl (Error ''Unexpected token''))"

text \<open>A decoding of buffers for the examples: every byte is a character of its own.\<close>

definition exampleToString :: "nat list \<Rightarrow> js_string" where
  "exampleToString bytes = bytes"

text \<open>A \<open>handleMessage\<close> for the examples: it throws on every message.\<close>

definition throwingHandler :: "inbound \<Rightarrow> TpaSession \<Rightarrow> TpaSession \<times> error option" where
  "throwingHandler m s = (s, Some (Error ''handler failed''))"

text \<open>
  A \<open>toLowerCase\<close> for the examples: on a text of ASCII characters, the letters A to Z
  become a to z.
\<close>

definition asciiLowerCase :: "js_string \<Rightarrow> js_string" where
  "asciiLowerCase x = map (\<lambda>c. if 65 \<le> c \<and> c \<le> 90 then c + 32 else c) x"

text \<open>Every path of the user document that has a validator.\<close>

definition allPaths :: "string list" where
  "allPaths = [''email'', ''runningApps'', ''installedApps'']"

definition exampleUser :: UserDocument where
  "exampleUser =
     \<lparr>email = units ''U@Example.COM'', runningApps = [''com.a'', ''com.b''],
      installedApps = None\<rparr>"

text \<open>Neither app list of the document holds a name twice.\<close>

definition duplicate_free :: "UserDocument \<Rightarrow> bool" where
  "duplicate_free u = (distinct (installedPackageNames u) \<and> distinct (runningApps u))"

definition exampleUserSession :: UserSession where
  "exampleUserSession =
     \<lparr>userSessionId = ''S1'', userId = ''u@example.com'', startTime = 0,
      glassesConnection = Some 1, disconnectedAt = None,
      sessionInstalledApps = [''com.acme.app''], activeAppSessions = [''com.acme.app''],
      loadingApps = [],
      appConnections = [(''com.acme.app'',
                         \<lparr>tpaSocket = 7, connectionState = ACTIVE, lastHealthCheckAt = 0\<rparr>)],
      appSubscriptions = [(''com.acme.app'', [''transcription:en-US''])],
      isTranscribing = True\<rparr>"

definition exampleSessions :: "string \<rightharpoonup> UserSession" where
  "exampleSessions = [''u@example.com'' \<mapsto> glassesSocketClosed 1000 exampleUserSession]"

section \<open>Properties\<close>

lemma set_add_set [simp]: "set (set_add xs x) = insert x (set xs)"
  by (auto simp: set_add_def)

lemma set_add_idem: "set_add (set_add xs x) x = set_add xs x"
  by (simp add: set_add_def)

lemma set_delete_set [simp]: "set (set_delete xs x) = set xs - {x}"
  by (auto simp: set_delete_def)

lemma distinct_set_add: "distinct xs \<Longrightarrow> distinct (set_add xs x)"
  by (simp add: set_add_def)

lemma distinct_set_delete: "distinct xs \<Longrightarrow> distinct (set_delete xs x)"
  by (simp add: set_delete_def)

lemma foldl_set_add_set: "set (foldl set_add acc xs) = set acc \<union> set xs"
  by (induction xs arbitrary: acc) auto

lemma foldl_set_add_distinct: "distinct acc \<Longrightarrow> distinct (foldl set_add acc xs)"
  by (induction xs arbitrary: acc) (auto simp: distinct_set_add)

lemma send_subscriptions [simp]: "subscriptions (fst (send m s)) = subscriptions s"
  by (auto simp: send_def send_body_def emit_def split: option.splits sum.splits if_splits)

lemma updateSubscriptions_subscriptions [simp]:
  "subscriptions (fst (updateSubscriptions s)) = subscriptions s"
  by (simp add: updateSubscriptions_def)

lemma subscribe_subscriptions:
  "subscriptions (fst (subscribe t s)) = set_add (subscriptions s) t"
  by (simp add: subscribe_def Let_def)

lemma unsubscribe_subscriptions:
  "subscriptions (fst (unsubscribe t s)) = set_delete (subscriptions s) t"
  by (simp add: unsubscribe_def Let_def)

subsection \<open>subscribe and unsubscribe\<close>

text \<open>
  C8: the subscriptions of the session behave as a set. Subscribing to a stream type twice
  leaves the same subscriptions as subscribing once; unsubscribing after subscribing leaves
  subscriptions without the type; and neither call changes whether any other type \<open>u\<close>
  is subscribed. (This holds whether or not the update reaches the cloud.)
\<close>

theorem subscribe_unsubscribe_set:
  "subscriptions (fst (subscribe t (fst (subscribe t s)))) = subscriptions (fst (subscribe t s))
   \<and> t \<in> set (subscriptions (fst (subscribe t s)))
   \<and> t \<notin> set (subscriptions (fst (unsubscribe t (fst (subscribe t s)))))
   \<and> (u \<noteq> t \<longrightarrow>
        (u \<in> set (subscriptions (fst (subscribe t s))) \<longleftrightarrow> u \<in> set (subscriptions s))
      \<and> (u \<in> set (subscriptions (fst (unsubscribe t s))) \<longleftrightarrow> u \<in> set (subscriptions s)))"
  by (auto simp: subscribe_subscriptions unsubscribe_subscriptions set_add_idem)

theorem subscribe_unsubscribe_set_witness:
  "''button_press'' \<noteq> ''transcription''
   \<and> subscriptions (fst (subscribe ''transcription'' (fst (subscribe ''transcription'' exampleSession))))
       = [''button_press'', ''transcription'']
   \<and> subscriptions (fst (unsubscribe ''transcription'' (fst (subscribe ''transcription'' exampleSession))))
       = [''button_press'']
   \<and> ''button_press'' \<in> set (subscriptions (fst (unsubscribe ''transcription'' exampleSession)))"
  using subscribe_unsubscribe_set [of "''transcription''" exampleSession "''button_press''"]
  by (simp add: subscribe_subscriptions unsubscribe_subscriptions exampleSession_def
        set_add_def set_delete_def)

subsection \<open>send\<close>

text \<open>
  C7, as stated, fails: a send on a session without a socket does not complete silently.
  The exception reaches the caller.
\<close>

theorem send_without_socket_throws:
  "ws exampleSession = None
   \<and> snd (send (OtherTpaMessage ''display_event'') exampleSession)
       = Some (Error ''WebSocket connection not established'')"
  by (simp add: send_def send_body_def exampleSession_def)

text \<open>
  C7, amended: when the socket is absent or not open, \<open>send\<close> writes nothing to the
  socket, emits one \<open>error\<close> event carrying the error (that the connection is not
  established, or the state the socket is in), and throws that error to its caller; nothing
  else of the session changes.
\<close>

theorem send_not_open_throws_without_write:
  "(ws s = None \<longrightarrow>
      send m s = (emit (ErrorEvent ''WebSocket connection not established'') s,
                  Some (Error ''WebSocket connection not established'')))
   \<and> (ws s = Some w \<and> readyState w \<noteq> 1 \<longrightarrow>
      send m s
        = (emit (ErrorEvent (''WebSocket not connected (current state: ''
                               @ stateName (readyState w) @ '')'')) s,
           Some (Error (''WebSocket not connected (current state: ''
                          @ stateName (readyState w) @ '')''))))
   \<and> (\<not> ws_open s \<longrightarrow>
      snd (send m s) \<noteq> None
      \<and> ws (fst (send m s)) = ws s
      \<and> (\<exists>e. emitted (fst (send m s)) = emitted s @ [ErrorEvent e]))"
  by (auto simp: send_def send_body_def ws_open_def emit_def split: option.splits)

theorem send_not_open_throws_without_write_witness:
  "\<not> ws_open closedSocketSession
   \<and> send (OtherTpaMessage ''display_event'') closedSocketSession
       = (emit (ErrorEvent ''WebSocket not connected (current state: CLOSED)'') closedSocketSession,
          Some (Error ''WebSocket not connected (current state: CLOSED)''))
   \<and> ws (fst (send (OtherTpaMessage ''display_event'') closedSocketSession)) = ws closedSocketSession"
proof -
  have a: "ws closedSocketSession = Some (openSocket\<lparr>readyState := 3\<rparr>)"
    "readyState (openSocket\<lparr>readyState := 3\<rparr>) \<noteq> 1"
    "stateName 3 = ''CLOSED''"
    by (simp_all add: closedSocketSession_def openSocket_def stateName_def)
  from send_not_open_throws_without_write
         [of closedSocketSession "OtherTpaMessage ''display_event''" "openSocket\<lparr>readyState := 3\<rparr>"]
  show ?thesis
    by (simp add: a ws_open_def emit_def)
qed

subsection \<open>Subscriptions computed from the settings\<close>

lemma updateSubscriptionsFromSettings_replaces:
  "subscriptionSettingsHandler s = Some h \<Longrightarrow> h (settingsData s) = Inr L \<Longrightarrow>
     subscriptions (updateSubscriptionsFromSettings s) = new_Set L"
  by (auto simp: updateSubscriptionsFromSettings_def Let_def new_Set_def emit_def
           split: prod.splits option.splits
           dest: arg_cong [where f = "\<lambda>p. subscriptions (fst p)"])

lemma updateSubscriptionsFromSettings_sent:
  assumes "subscriptionSettingsHandler s = Some h" and "h (settingsData s) = Inr L"
    and "ws s = Some w" and "readyState w = 1" and "sendFailure w = None"
  shows "lastWritten (updateSubscriptionsFromSettings s)
           = Some (TpaSubscriptionUpdate (packageName (config s)) (new_Set L) (sessionId s))"
  using assms
  by (simp add: updateSubscriptionsFromSettings_def Let_def new_Set_def ws_open_def
        updateSubscriptions_def send_def send_body_def lastWritten_def)

lemma updateSubscriptionsFromSettings_frame:
  "config (updateSubscriptionsFromSettings s) = config s
   \<and> sessionId (updateSubscriptionsFromSettings s) = sessionId s
   \<and> (\<forall>w. ws s = Some w \<longrightarrow> (\<exists>w'. ws (updateSubscriptionsFromSettings s) = Some w'
          \<and> readyState w' = readyState w \<and> sendFailure w' = sendFailure w))"
  by (auto simp: updateSubscriptionsFromSettings_def Let_def ws_open_def
        updateSubscriptions_def send_def send_body_def emit_def
        split: option.splits sum.splits)

text \<open>
  C4: the session's subscriptions are replaced, not merged: set to a list \<open>L\<close>, they
  are the members of \<open>L\<close>, whatever they were before. When the subscriptions are
  set to \<open>[A, B]\<close> and then to \<open>[]\<close> (the settings handler returning first the one list,
  then the other), the session is subscribed to exactly \<open>A\<close> and \<open>B\<close> in between and to
  nothing afterwards, so neither to \<open>A\<close> nor to \<open>B\<close>; and over an open socket the last
  \<open>subscription_update\<close> sent to the cloud for the package carries the empty list.
\<close>

theorem subscriptions_replaced_not_merged:
  fixes s :: TpaSession and A B :: ExtendedStreamType and L :: "ExtendedStreamType list"
  defines "s1 \<equiv> updateSubscriptionsFromSettings
                   (s\<lparr>subscriptionSettingsHandler := Some (\<lambda>settings. Inr [A, B])\<rparr>)"
  defines "s2 \<equiv> updateSubscriptionsFromSettings
                   (s1\<lparr>subscriptionSettingsHandler := Some (\<lambda>settings. Inr [])\<rparr>)"
  shows "subscriptions (updateSubscriptionsFromSettings
                          (s\<lparr>subscriptionSettingsHandler := Some (\<lambda>settings. Inr L)\<rparr>))
           = new_Set L
         \<and> set (subscriptions s1) = {A, B}
         \<and> subscriptions s2 = []
         \<and> A \<notin> set (subscriptions s2) \<and> B \<notin> set (subscriptions s2)
         \<and> (\<forall>w. ws s = Some w \<and> readyState w = 1 \<and> sendFailure w = None \<longrightarrow>
              lastWritten s2 = Some (TpaSubscriptionUpdate (packageName (config s)) [] (sessionId s)))"
proof -
  let ?sa = "s\<lparr>subscriptionSettingsHandler := Some (\<lambda>settings. Inr [A, B])\<rparr>"
  let ?sb = "s1\<lparr>subscriptionSettingsHandler := Some (\<lambda>settings. Inr [])\<rparr>"
  have a: "subscriptions s1 = new_Set [A, B]"
    unfolding s1_def
    by (rule updateSubscriptionsFromSettings_replaces [where h = "\<lambda>settings. Inr [A, B]"]) simp_all
  have b: "subscriptions s2 = new_Set []"
    unfolding s2_def
    by (rule updateSubscriptionsFromSettings_replaces [where h = "\<lambda>settings. Inr []"]) simp_all
  have c: "lastWritten s2 = Some (TpaSubscriptionUpdate (packageName (config s)) [] (sessionId s))"
    if w: "ws s = Some w" "readyState w = 1" "sendFailure w = None" for w
  proof -
    from updateSubscriptionsFromSettings_frame [of ?sa] w
    obtain w' where w': "ws s1 = Some w'" "readyState w' = 1" "sendFailure w' = None"
      and cfg: "config s1 = config s" "sessionId s1 = sessionId s"
      unfolding s1_def by auto
    have "lastWritten s2
            = Some (TpaSubscriptionUpdate (packageName (config ?sb)) (new_Set []) (sessionId ?sb))"
      unfolding s2_def
      by (rule updateSubscriptionsFromSettings_sent [where h = "\<lambda>settings. Inr []" and w = w'])
         (simp_all add: w')
    then show ?thesis by (simp add: cfg new_Set_def)
  qed
  have g: "subscriptions (updateSubscriptionsFromSettings
                            (s\<lparr>subscriptionSettingsHandler := Some (\<lambda>settings. Inr L)\<rparr>))
             = new_Set L"
    by (rule updateSubscriptionsFromSettings_replaces [where h = "\<lambda>settings. Inr L"]) simp_all
  from a b c g show ?thesis by (auto simp: new_Set_def set_add_def)
qed

theorem subscriptions_replaced_not_merged_witness:
  "ws openSocketSession = Some openSocket \<and> readyState openSocket = 1 \<and> sendFailure openSocket = None
   \<and> subscriptions
        (updateSubscriptionsFromSettings
          (updateSubscriptionsFromSettings
             (openSocketSession\<lparr>subscriptionSettingsHandler :=
                Some (\<lambda>settings. Inr [''transcription'', ''button_press''])\<rparr>)
           \<lparr>subscriptionSettingsHandler := Some (\<lambda>settings. Inr [])\<rparr>)) = []
   \<and> lastWritten
        (updateSubscriptionsFromSettings
          (updateSubscriptionsFromSettings
             (openSocketSession\<lparr>subscriptionSettingsHandler :=
                Some (\<lambda>settings. Inr [''transcription'', ''button_press''])\<rparr>)
           \<lparr>subscriptionSettingsHandler := Some (\<lambda>settings. Inr [])\<rparr>))
       = Some (TpaSubscriptionUpdate ''com.acme.app'' [] (Some ''session-1''))"
  using subscriptions_replaced_not_merged
          [where s = openSocketSession and A = "''transcription''" and B = "''button_press''"
             and L = "[]"]
  by (simp add: openSocketSession_def exampleSession_def openSocket_def)

subsection \<open>Incoming stream data\<close>

lemma createTranscriptionStream_neq [simp]:
  "createTranscriptionStream l \<noteq> TRANSCRIPTION"
  "TRANSCRIPTION \<noteq> createTranscriptionStream l"
  "createTranscriptionStream l \<noteq> HEAD_POSITION"
  "createTranscriptionStream l \<noteq> BUTTON_PRESS"
  "createTranscriptionStream l \<noteq> []"
  by (simp_all add: createTranscriptionStream_def TRANSCRIPTION_def HEAD_POSITION_def BUTTON_PRESS_def)

lemma handleMessage_tagged:
  assumes "transcribeLanguage d = Some lang" and "lang \<noteq> []"
  shows "handleMessage now (DataStream TRANSCRIPTION (Some d)) s
           = (if createTranscriptionStream lang \<in> set (subscriptions s)
              then emit (StreamEvent (createTranscriptionStream lang) (Payload d)) s else s)"
  using assms
  by (simp add: handleMessage_def validateMessage_def messageStreamType_def set_has_def
        sanitizeEventData_def)

lemma handleMessage_untagged:
  assumes "transcribeLanguage d = None \<or> transcribeLanguage d = Some []"
  shows "handleMessage now (DataStream TRANSCRIPTION (Some d)) s
           = (if TRANSCRIPTION \<in> set (subscriptions s)
              then emit (StreamEvent TRANSCRIPTION (sanitizeEventData now TRANSCRIPTION (Some d))) s else s)"
  using assms
  by (auto simp: handleMessage_def validateMessage_def messageStreamType_def set_has_def
        TRANSCRIPTION_def)

text \<open>
  C3: a \<open>data_stream\<close> message of type \<open>transcription\<close> whose payload carries a
  \<open>transcribeLanguage\<close> is dispatched under the language-parameterized key, and only
  when the subscriptions of the session contain exactly that key. A session subscribed only
  to the base type \<open>transcription\<close> gets no language-tagged event, and a session
  subscribed only to a language-parameterized key gets no event for a message without a
  language; in both cases the message leaves the session as it was.
\<close>

theorem language_streams_exclusive:
  "(transcribeLanguage d = Some lang \<and> lang \<noteq> [] \<longrightarrow>
      handleMessage now (DataStream TRANSCRIPTION (Some d)) s
        = (if createTranscriptionStream lang \<in> set (subscriptions s)
           then emit (StreamEvent (createTranscriptionStream lang) (Payload d)) s else s))
   \<and> (transcribeLanguage d = Some lang \<and> lang \<noteq> [] \<and> subscriptions s = [TRANSCRIPTION] \<longrightarrow>
      handleMessage now (DataStream TRANSCRIPTION (Some d)) s = s)
   \<and> ((transcribeLanguage d = None \<or> transcribeLanguage d = Some [])
        \<and> subscriptions s = [createTranscriptionStream l] \<longrightarrow>
      handleMessage now (DataStream TRANSCRIPTION (Some d)) s = s)"
  by (simp add: handleMessage_tagged handleMessage_untagged)

theorem language_streams_exclusive_witness:
  "transcribeLanguage englishTranscript = Some ''en-US''
   \<and> emitted (handleMessage 0 (DataStream TRANSCRIPTION (Some englishTranscript))
        (exampleSession\<lparr>subscriptions := [''transcription:en-US'']\<rparr>))
       = [StreamEvent ''transcription:en-US'' (Payload englishTranscript)]
   \<and> handleMessage 0 (DataStream TRANSCRIPTION (Some englishTranscript))
        (exampleSession\<lparr>subscriptions := [TRANSCRIPTION]\<rparr>)
       = exampleSession\<lparr>subscriptions := [TRANSCRIPTION]\<rparr>
   \<and> transcribeLanguage plainTranscript = None
   \<and> emitted (handleMessage 0 (DataStream TRANSCRIPTION (Some plainTranscript))
        (exampleSession\<lparr>subscriptions := [''transcription:en-US'']\<rparr>)) = []"
proof -
  have k: "createTranscriptionStream ''en-US'' = ''transcription:en-US''"
    by (simp add: createTranscriptionStream_def TRANSCRIPTION_def)
  have a: "transcribeLanguage englishTranscript = Some ''en-US''" "''en-US'' \<noteq> []"
    "transcribeLanguage plainTranscript = None"
    by (simp_all add: englishTranscript_def plainTranscript_def)
  from language_streams_exclusive
         [of englishTranscript "''en-US''" 0 "exampleSession\<lparr>subscriptions := [''transcription:en-US'']\<rparr>" "''en-US''"]
       language_streams_exclusive
         [of englishTranscript "''en-US''" 0 "exampleSession\<lparr>subscriptions := [TRANSCRIPTION]\<rparr>" "''en-US''"]
       language_streams_exclusive
         [of plainTranscript "''en-US''" 0 "exampleSession\<lparr>subscriptions := [''transcription:en-US'']\<rparr>" "''en-US''"]
  show ?thesis
    by (simp add: a k emit_def exampleSession_def)
qed

subsection \<open>The app_stopped message\<close>

text \<open>
  C9: an \<open>app_stopped\<close> message sets the attempt counter to 0, whatever it was, and
  emits a \<open>disconnected\<close> event with code 1000 and \<open>wasClean\<close> true; it neither calls
  \<open>handleReconnection\<close> nor sets a reconnection timer.
\<close>

theorem app_stopped_resets:
  "reconnectAttempts (handleMessage now (AppStopped reason) s) = 0
   \<and> emitted (handleMessage now (AppStopped reason) s)
       = emitted s @ [DisconnectedEvent 1000
                        (''App stopped: '' @ (case reason of None \<Rightarrow> ''unknown''
                                               | Some r \<Rightarrow> if r = [] then ''unknown'' else r))
                        True False]
   \<and> reconnectCalls (handleMessage now (AppStopped reason) s) = reconnectCalls s
   \<and> reconnectTimers (handleMessage now (AppStopped reason) s) = reconnectTimers s"
  by (auto simp: handleMessage_def validateMessage_def Let_def emit_def truthy_def split: option.splits)

theorem app_stopped_resets_witness:
  "reconnectAttempts (exampleSession\<lparr>reconnectAttempts := 2\<rparr>) = 2
   \<and> reconnectAttempts (handleMessage 0 (AppStopped (Some ''user request''))
        (exampleSession\<lparr>reconnectAttempts := 2\<rparr>)) = 0
   \<and> emitted (handleMessage 0 (AppStopped (Some ''user request''))
        (exampleSession\<lparr>reconnectAttempts := 2\<rparr>))
       = [DisconnectedEvent 1000 ''App stopped: user request'' True False]
   \<and> reconnectTimers (handleMessage 0 (AppStopped (Some ''user request''))
        (exampleSession\<lparr>reconnectAttempts := 2\<rparr>)) = []"
  using app_stopped_resets [of 0 "Some ''user request''" "exampleSession\<lparr>reconnectAttempts := 2\<rparr>"]
  by (simp add: exampleSession_def)

subsection \<open>Resuming a user session within the grace period\<close>

lemma glassesSocketClosed_within:
  "now - t < grace \<Longrightarrow>
     isDisconnected (glassesSocketClosed t u) \<and> withinGracePeriod grace now (glassesSocketClosed t u)"
  by (simp add: isDisconnected_def withinGracePeriod_def glassesSocketClosed_def)

text \<open>
  C5: when the glasses reconnect to a DISCONNECTED session within the grace period, the session
  of the user is the one from before with the new socket bound and \<open>disconnectedAt\<close>
  cleared: the same session identifier, the same active apps, the same subscriptions and the
  same TPA connections (none torn down, none recreated); only \<open>glassesConnection\<close> and
  \<open>disconnectedAt\<close> change, and the sessions of other users stay as they were.
\<close>

theorem grace_period_resume:
  assumes "sessions uid = Some u" and "isDisconnected u" and "withinGracePeriod grace now u"
  shows "fst (createOrResume grace now sid uid socket sessions) uid
           = Some (u\<lparr>glassesConnection := Some socket, disconnectedAt := None\<rparr>)
         \<and> (\<forall>u'. fst (createOrResume grace now sid uid socket sessions) uid = Some u' \<longrightarrow>
               userSessionId u' = userSessionId u
             \<and> activeAppSessions u' = activeAppSessions u
             \<and> appSubscriptions u' = appSubscriptions u
             \<and> appConnections u' = appConnections u
             \<and> glassesConnection u' = Some socket
             \<and> disconnectedAt u' = None)
         \<and> (\<forall>other. other \<noteq> uid \<longrightarrow>
               fst (createOrResume grace now sid uid socket sessions) other = sessions other)"
  using assms by (simp add: createOrResume_def)

theorem grace_period_resume_witness:
  "exampleSessions ''u@example.com'' = Some (glassesSocketClosed 1000 exampleUserSession)
   \<and> isDisconnected (glassesSocketClosed 1000 exampleUserSession)
   \<and> withinGracePeriod defaultGracePeriod 241000 (glassesSocketClosed 1000 exampleUserSession)
   \<and> fst (createOrResume defaultGracePeriod 241000 ''S2'' ''u@example.com'' 2 exampleSessions) ''u@example.com''
       = Some (exampleUserSession\<lparr>glassesConnection := Some 2\<rparr>)
   \<and> snd (createOrResume defaultGracePeriod 241000 ''S2'' ''u@example.com'' 2 exampleSessions)
       = [''com.acme.app'']"
proof -
  have a: "exampleSessions ''u@example.com'' = Some (glassesSocketClosed 1000 exampleUserSession)"
    by (simp add: exampleSessions_def)
  have b: "isDisconnected (glassesSocketClosed 1000 exampleUserSession)"
    "withinGracePeriod defaultGracePeriod 241000 (glassesSocketClosed 1000 exampleUserSession)"
    using glassesSocketClosed_within [of 241000 1000 defaultGracePeriod exampleUserSession]
    by (simp_all add: defaultGracePeriod_def)
  have c: "snd (createOrResume defaultGracePeriod 241000 ''S2'' ''u@example.com'' 2 exampleSessions)
             = [''com.acme.app'']"
    by (simp add: createOrResume_def a b) (simp add: glassesSocketClosed_def exampleUserSession_def)
  have d: "glassesSocketClosed 1000 exampleUserSession\<lparr>glassesConnection := Some 2, disconnectedAt := None\<rparr>
             = exampleUserSession\<lparr>glassesConnection := Some 2\<rparr>"
    by (simp add: glassesSocketClosed_def exampleUserSession_def)
  from grace_period_resume
         [where sessions = exampleSessions and uid = "''u@example.com''"
            and u = "glassesSocketClosed 1000 exampleUserSession" and grace = defaultGracePeriod
            and now = 241000 and sid = "''S2''" and socket = 2, OF a b]
  show ?thesis
    by (simp add: a b c d)
qed

subsection \<open>The close handler\<close>






subsection \<open>Reconnection\<close>

lemma handleReconnection_config:
  "config (handleReconnection s) = config s \<and> sessionId (handleReconnection s) = sessionId s"
  by (simp add: handleReconnection_def Let_def emit_def)

lemma reconnectionFailed_frame:
  "config (reconnectionFailed e s) = config s \<and> sessionId (reconnectionFailed e s) = sessionId s
   \<and> reconnectAttempts (reconnectionFailed e s) = reconnectAttempts s
   \<and> reconnectTimers (reconnectionFailed e s) = reconnectTimers s"
  by (simp add: reconnectionFailed_def Let_def emit_def)

lemma handleReconnection_exhausted:
  assumes "enabled s" and "maxAttempts (config s) \<le> int (reconnectAttempts s)"
  shows "reconnectTimers (handleReconnection s) = reconnectTimers s"
    and "reconnectAttempts (handleReconnection s) = reconnectAttempts s"
    and "emitted (handleReconnection s) = emitted s @ [permanentDisconnection]"
  using assms by (simp_all add: handleReconnection_def Let_def emit_def enabled_def)

lemma handleReconnection_attempt:
  assumes "enabled s" and "int (reconnectAttempts s) < maxAttempts (config s)"
  shows "reconnectTimers (handleReconnection s)
           = reconnectTimers s @ [backoffDelay (baseDelay (config s)) (reconnectAttempts s)]"
    and "reconnectAttempts (handleReconnection s) = Suc (reconnectAttempts s)"
    and "emitted (handleReconnection s) = emitted s"
  using assms by (simp_all add: handleReconnection_def Let_def emit_def enabled_def)

lemma calls_snoc [simp]:
  "calls (steps @ [CallMade]) = Suc (calls steps)"
  "calls (steps @ [ConnectRejected e]) = calls steps"
  "calls [] = 0"
  by (simp_all add: calls_def)

lemma failing_run:
  fixes s :: TpaSession
  assumes en: "enabled s" and a0: "reconnectAttempts s = 0"
  defines "M \<equiv> nat (maxAttempts (config s))"
  shows "config (foldl afterStep s steps) = config s
         \<and> sessionId (foldl afterStep s steps) = sessionId s
         \<and> reconnectAttempts (foldl afterStep s steps) = min (calls steps) M
         \<and> reconnectTimers (foldl afterStep s steps)
             = reconnectTimers s @ map (backoffDelay (baseDelay (config s))) [0..<min (calls steps) M]"
proof (induction steps rule: rev_induct)
  case Nil
  show ?case by (simp add: a0)
next
  case (snoc x steps)
  let ?t = "foldl afterStep s steps"
  from snoc have cfg: "config ?t = config s" and sid: "sessionId ?t = sessionId s"
    and att: "reconnectAttempts ?t = min (calls steps) M"
    and tim: "reconnectTimers ?t
                = reconnectTimers s @ map (backoffDelay (baseDelay (config s))) [0..<min (calls steps) M]"
    by simp_all
  from en cfg sid have en': "enabled ?t" by (simp add: enabled_def)
  show ?case
  proof (cases x)
    case (ConnectRejected e)
    then show ?thesis
      using reconnectionFailed_frame [of e ?t] cfg sid att tim by simp
  next
    case CallMade
    show ?thesis
    proof (cases "calls steps < M")
      case True
      then have lt: "int (reconnectAttempts ?t) < maxAttempts (config ?t)"
        using att cfg by (simp add: M_def)
      from True have mn: "min (calls steps) M = calls steps" "min (Suc (calls steps)) M = Suc (calls steps)"
        by simp_all
      show ?thesis
        using handleReconnection_attempt(1,2) [OF en' lt] handleReconnection_config [of ?t]
        by (simp add: CallMade cfg sid att tim mn)
    next
      case False
      then have ge: "maxAttempts (config ?t) \<le> int (reconnectAttempts ?t)"
        using att cfg by (simp add: M_def)
      from False have mn: "min (calls steps) M = M" "min (Suc (calls steps)) M = M"
        by simp_all
      show ?thesis
        using handleReconnection_exhausted(1,2) [OF en' ge] handleReconnection_config [of ?t]
        by (simp add: CallMade cfg sid att tim mn)
    qed
  qed
qed

lemma sum_backoff: "sum_list (map (\<lambda>k. d * 2 ^ k) [0..<M]) = (d :: int) * (2 ^ M - 1)"
  by (induction M) (simp_all add: algebra_simps)

lemma backoffDelay_exact:
  assumes "\<bar>d\<bar> * 2 ^ M < 2 ^ 1024"
  shows "map (backoffDelay d) [0..<M] = map (\<lambda>k. Millis (d * 2 ^ k)) [0..<M]"
proof (rule map_cong [OF refl])
  fix k assume "k \<in> set [0..<M]"
  then have "k \<le> M" by simp
  then have "(2::int) ^ k \<le> 2 ^ M" by (simp add: power_increasing)
  then have "\<bar>d\<bar> * 2 ^ k \<le> \<bar>d\<bar> * 2 ^ M" by (simp add: mult_left_mono)
  with assms show "backoffDelay d k = Millis (d * 2 ^ k)" by (simp add: backoffDelay_def)
qed

lemma configured:
  "maxAttempts c = (case maxReconnectAttempts c of None \<Rightarrow> 3 | Some m \<Rightarrow> if m = 0 then 3 else m)"
  "baseDelay c = (case reconnectDelay c of None \<Rightarrow> 1000 | Some d \<Rightarrow> if d = 0 then 1000 else d)"
  by (simp_all add: maxAttempts_def baseDelay_def)

text \<open>
  What the calls of \<open>handleReconnection\<close> do, however they and the rejections of the
  awaited \<open>connect\<close>s interleave: on a session with a configured base delay \<open>d\<close>
  and a configured maximum of \<open>m\<close> attempts, whose counter starts at 0, the
  \<open>k + 1\<close>-th call sets a timer of \<open>d * 2 ^ k\<close> milliseconds as long as
  \<open>k < m\<close> (exactly, as long as the delay is below \<open>2 ^ 1024\<close>); the \<open>m\<close>
  delays add up to \<open>d * (2 ^ m - 1)\<close>; and every call after \<open>m\<close> calls emits the
  \<open>disconnected\<close> event flagged permanent and sets no timer.
\<close>

lemma failing_run_backoff:
  fixes s :: TpaSession
  assumes "autoReconnect (config s)" and "sessionId s = Some sid" and "sid \<noteq> []"
    and "reconnectAttempts s = 0"
    and "reconnectDelay (config s) = Some d" and "d \<noteq> 0"
    and "maxReconnectAttempts (config s) = Some m" and "0 < m"
    and "\<bar>d\<bar> * 2 ^ nat m < 2 ^ 1024"
  shows "reconnectTimers (foldl afterStep s steps)
           = reconnectTimers s @ map (\<lambda>k. Millis (d * 2 ^ k)) [0..<min (calls steps) (nat m)]
         \<and> sum_list (map (\<lambda>k. d * 2 ^ k) [0..<nat m]) = d * (2 ^ nat m - 1)
         \<and> (nat m \<le> calls steps \<longrightarrow>
              reconnectTimers (handleReconnection (foldl afterStep s steps))
                = reconnectTimers (foldl afterStep s steps)
              \<and> emitted (handleReconnection (foldl afterStep s steps))
                  = emitted (foldl afterStep s steps) @ [permanentDisconnection])"
proof -
  from assms(1-3) have en: "enabled s" by (simp add: enabled_def)
  have M: "maxAttempts (config s) = m" and D: "baseDelay (config s) = d"
    using assms(5-8) by (simp_all add: maxAttempts_def baseDelay_def)
  note run = failing_run [OF en assms(4), of steps, unfolded M D]
  have le: "min (calls steps) (nat m) \<le> nat m" by simp
  have "\<bar>d\<bar> * 2 ^ min (calls steps) (nat m) \<le> \<bar>d\<bar> * 2 ^ nat m"
    by (intro mult_left_mono power_increasing) simp_all
  with assms(9) have "\<bar>d\<bar> * 2 ^ min (calls steps) (nat m) < 2 ^ 1024" by simp
  from backoffDelay_exact [OF this] run
  have p1: "reconnectTimers (foldl afterStep s steps)
              = reconnectTimers s @ map (\<lambda>k. Millis (d * 2 ^ k)) [0..<min (calls steps) (nat m)]"
    by simp
  have p3: "reconnectTimers (handleReconnection (foldl afterStep s steps))
              = reconnectTimers (foldl afterStep s steps)
            \<and> emitted (handleReconnection (foldl afterStep s steps))
                = emitted (foldl afterStep s steps) @ [permanentDisconnection]"
    if "nat m \<le> calls steps"
  proof -
    let ?t = "foldl afterStep s steps"
    from run en have en': "enabled ?t" by (simp add: enabled_def)
    from run that have "maxAttempts (config ?t) \<le> int (reconnectAttempts ?t)"
      by (simp add: M)
    from handleReconnection_exhausted(1,3) [OF en' this] show ?thesis by simp
  qed
  from p1 p3 sum_backoff [of d "nat m"] show ?thesis by blast
qed

text \<open>
  C1, at the failing input: a session with three attempts allowed and a base delay of 1000 ms,
  whose socket closes with code 1006 at time 0, and a server that refuses every connection.
  Each refused socket closes in its turn, and its \<open>close\<close> handler calls
  \<open>handleReconnection\<close> again while the call before still awaits its \<open>connect\<close>,
  which ends only by its timer of 5000 ms. The timers are set to 1000, 2000 and 4000 ms, and
  connections are made at 1000 and 3000 ms. At 6000 ms the first \<open>connect\<close> times out;
  its \<open>catch\<close> block finds the counter at 3 and emits the \<open>disconnected\<close> event
  flagged permanent: after 6000 ms and not after 1000 + 2000 + 4000 ms, before the third
  attempt is made, and with the third timer still pending. That timer fires at 7000 ms, after
  the notice, and the third connection is made then. The notice is emitted four times in
  all, at 6000, 7000, 8000 and 12000 ms, after which no task is left.
\<close>

theorem notice_before_last_attempt:
  "map_option connects (turns (refusingServer 0) 8 droppedSession) = Some [1000, 3000]
   \<and> map_option permanentAt (turns (refusingServer 0) 8 droppedSession) = Some [6000]
   \<and> map_option tasks (turns (refusingServer 0) 8 droppedSession)
       = Some [(7000, TimerFires), (8000, ConnectTimesOut)]
   \<and> map_option (\<lambda>l. reconnectTimers (session l)) (turns (refusingServer 0) 8 droppedSession)
       = Some [Millis 1000, Millis 2000, Millis 4000]
   \<and> map_option connects (turns (refusingServer 0) 13 droppedSession) = Some [1000, 3000, 7000]
   \<and> map_option permanentAt (turns (refusingServer 0) 13 droppedSession)
       = Some [6000, 7000, 8000, 12000]
   \<and> map_option tasks (turns (refusingServer 0) 13 droppedSession) = Some []"
  by code_simp

text \<open>The first notice and what is pending when it is emitted.\<close>

theorem notice_before_last_attempt_witness:
  "map_option permanentAt (turns (refusingServer 0) 8 droppedSession) = Some [6000]
   \<and> map_option tasks (turns (refusingServer 0) 8 droppedSession)
       = Some [(7000, TimerFires), (8000, ConnectTimesOut)]"
  using notice_before_last_attempt by blast

subsection \<open>The message handler of the socket\<close>

lemma try_catch_emit:
  "snd (try_catch body (\<lambda>e s'. (emit (f e) s', None))) = None"
  by (simp add: try_catch_def split: prod.splits option.splits)

lemma messageHandler_never_throws: "snd (messageHandler parse toString hm data isBinary s) = None"
  unfolding messageHandler_def by (rule try_catch_emit)

lemma messageHandler_text:
  assumes "data = StringData x \<or> (data = BufferData b \<and> \<not> isBinary \<and> x = toString b)"
  shows "messageHandler parse toString hm data isBinary s
           = try_catch
               (try_catch (json_messages parse toString hm data s)
                  (\<lambda>e s'. (emit (ErrorEvent (''Failed to parse JSON message: '' @ error_message e)) s', None)))
               (\<lambda>e s'. (emit (ErrorEvent (''Unhandled message error: '' @ error_message e)) s', None))"
  using assms by (auto simp: messageHandler_def split: bool.splits)

lemma dropWhile_all: "(\<forall>c\<in>set (dropWhile P x). P c) \<longleftrightarrow> dropWhile P x = []"
proof
  assume all: "\<forall>c\<in>set (dropWhile P x). P c"
  show "dropWhile P x = []"
  proof (rule ccontr)
    assume ne: "dropWhile P x \<noteq> []"
    then have n: "\<not> P (hd (dropWhile P x))" by (rule hd_dropWhile)
    from ne have "hd (dropWhile P x) \<in> set (dropWhile P x)" by (rule hd_in_set)
    with all have "P (hd (dropWhile P x))" by (rule bspec)
    with n show False by (rule notE)
  qed
next
  assume e: "dropWhile P x = []"
  show "\<forall>c\<in>set (dropWhile P x). P c" unfolding e by simp
qed

lemma trim_empty_iff: "trim x = [] \<longleftrightarrow> list_all js_whitespace x"
proof -
  have "trim x = [] \<longleftrightarrow> dropWhile js_whitespace (rev (dropWhile js_whitespace x)) = []"
    by (simp add: trim_def)
  also have "\<dots> \<longleftrightarrow> (\<forall>c\<in>set (dropWhile js_whitespace x). js_whitespace c)"
    by (simp only: dropWhile_eq_Nil_conv set_rev)
  also have "\<dots> \<longleftrightarrow> dropWhile js_whitespace x = []"
    by (rule dropWhile_all)
  also have "\<dots> \<longleftrightarrow> list_all js_whitespace x"
    by (simp only: dropWhile_eq_Nil_conv list_all_iff)
  finally show ?thesis .
qed

lemma json_messages_text:
  assumes "data = StringData x \<or> (data = BufferData b \<and> \<not> isBinary \<and> x = toString b)"
  shows "json_messages parse toString hm data s
           = (if x = [] \<or> trim x = [] then (emit (ErrorEvent ''Received empty JSON message'') s, None)
              else case parse x of
                     Inl e \<Rightarrow> (s, Some e)
                   | Inr message \<Rightarrow>
                       if falsy message \<or> \<not> typeof_object message \<or> \<not> type_in message
                       then (emit (ErrorEvent ''Malformed message: missing type property'') s, None)
                       else hm (ParsedMessage message) s)"
  using assms by (auto simp: json_messages_def)

text \<open>
  C6: the message handler never throws, whatever the frame, the parser, the decoding of a
  buffer and \<open>handleMessage\<close> do. An empty binary buffer, a text frame (a string, or a
  buffer that is not binary) that is empty or consists of white space only, one that
  \<open>JSON.parse\<close> rejects, and one whose parsed value has no \<open>type\<close> property are each
  answered by one \<open>error\<close> event: the frame is dropped (\<open>handleMessage\<close> is not
  called), and emitting the event leaves the socket as it was, so the connection is not
  closed.
\<close>

theorem messageHandler_drops_bad_frames:
  "snd (messageHandler parse toString hm data isBinary s) = None
   \<and> messageHandler parse toString hm (BufferData []) True s
       = (emit (ErrorEvent ''Received empty binary data'') s, None)
   \<and> ((data = StringData x \<or> (data = BufferData b \<and> \<not> isBinary \<and> x = toString b)) \<longrightarrow>
        (list_all js_whitespace x \<longrightarrow>
           messageHandler parse toString hm data isBinary s
             = (emit (ErrorEvent ''Received empty JSON message'') s, None))
      \<and> (\<not> list_all js_whitespace x \<and> parse x = Inl e \<longrightarrow>
           messageHandler parse toString hm data isBinary s
             = (emit (ErrorEvent (''Failed to parse JSON message: '' @ error_message e)) s, None))
      \<and> (\<not> list_all js_whitespace x \<and> parse x = Inr message \<and> \<not> type_in message \<longrightarrow>
           messageHandler parse toString hm data isBinary s
             = (emit (ErrorEvent ''Malformed message: missing type property'') s, None)))
   \<and> ws (emit ev s) = ws s"
proof -
  have a: "messageHandler parse toString hm (BufferData []) True s
             = (emit (ErrorEvent ''Received empty binary data'') s, None)"
    by (simp add: messageHandler_def try_catch_def)
  have ne: "x \<noteq> [] \<and> trim x \<noteq> []" if "\<not> list_all js_whitespace x"
    using that by (auto simp: trim_empty_iff)
  have b: "messageHandler parse toString hm data isBinary s
             = (emit (ErrorEvent ''Received empty JSON message'') s, None)"
    if f: "data = StringData x \<or> (data = BufferData b \<and> \<not> isBinary \<and> x = toString b)"
      and "list_all js_whitespace x"
    using that(2) trim_empty_iff [of x]
    by (simp add: messageHandler_text [where toString = toString and b = b and x = x, OF f]
          json_messages_text [where toString = toString and b = b and x = x, OF f] try_catch_def)
  have c: "messageHandler parse toString hm data isBinary s
             = (emit (ErrorEvent (''Failed to parse JSON message: '' @ error_message e)) s, None)"
    if f: "data = StringData x \<or> (data = BufferData b \<and> \<not> isBinary \<and> x = toString b)"
      and "\<not> list_all js_whitespace x" "parse x = Inl e"
    using that(3) ne [OF that(2)]
    by (simp add: messageHandler_text [where toString = toString and b = b and x = x, OF f]
          json_messages_text [where toString = toString and b = b and x = x, OF f] try_catch_def)
  have d: "messageHandler parse toString hm data isBinary s
             = (emit (ErrorEvent ''Malformed message: missing type property'') s, None)"
    if f: "data = StringData x \<or> (data = BufferData b \<and> \<not> isBinary \<and> x = toString b)"
      and "\<not> list_all js_whitespace x" "parse x = Inr message" "\<not> type_in message"
    using that(3,4) ne [OF that(2)]
    by (simp add: messageHandler_text [where toString = toString and b = b and x = x, OF f]
          json_messages_text [where toString = toString and b = b and x = x, OF f] try_catch_def)
  have e: "ws (emit ev s) = ws s" by (simp add: emit_def)
  show ?thesis
  proof (intro conjI impI)
    show "snd (messageHandler parse toString hm data isBinary s) = None"
      by (rule messageHandler_never_throws)
  next
    show "messageHandler parse toString hm (BufferData []) True s
            = (emit (ErrorEvent ''Received empty binary data'') s, None)"
      by (rule a)
  next
    assume "data = StringData x \<or> (data = BufferData b \<and> \<not> isBinary \<and> x = toString b)"
      and "list_all js_whitespace x"
    then show "messageHandler parse toString hm data isBinary s
                 = (emit (ErrorEvent ''Received empty JSON message'') s, None)"
      by (rule b)
  next
    assume "data = StringData x \<or> (data = BufferData b \<and> \<not> isBinary \<and> x = toString b)"
      and "\<not> list_all js_whitespace x \<and> parse x = Inl e"
    then show "messageHandler parse toString hm data isBinary s
                 = (emit (ErrorEvent (''Failed to parse JSON message: '' @ error_message e)) s, None)"
      by (simp add: c)
  next
    assume "data = StringData x \<or> (data = BufferData b \<and> \<not> isBinary \<and> x = toString b)"
      and "\<not> list_all js_whitespace x \<and> parse x = Inr message \<and> \<not> type_in message"
    then show "messageHandler parse toString hm data isBinary s
                 = (emit (ErrorEvent ''Malformed message: missing type property'') s, None)"
      by (simp add: d)
  next
    show "ws (emit ev s) = ws s" by (rule e)
  qed
qed

text \<open>
  Blank frames (of spaces; of a no-break space, a line separator and a byte order mark), a
  frame that the parser rejects, frames without a \<open>type\<close>, and a frame whose handling throws.
\<close>

theorem messageHandler_drops_bad_frames_witness:
  "messageHandler exampleParse exampleToString throwingHandler (StringData (units ''   '')) False exampleSession
     = (emit (ErrorEvent ''Received empty JSON message'') exampleSession, None)
   \<and> messageHandler exampleParse exampleToString throwingHandler (StringData [160, 8232, 65279]) False exampleSession
     = (emit (ErrorEvent ''Received empty JSON message'') exampleSession, None)
   \<and> messageHandler exampleParse exampleToString throwingHandler (BufferData (units ''{nope'')) False exampleSession
     = (emit (ErrorEvent ''Failed to parse JSON message: Unexpected token'') exampleSession, None)
   \<and> messageHandler exampleParse exampleToString throwingHandler (StringData (units ''{\"text\":\"hi\"}'')) False exampleSession
     = (emit (ErrorEvent ''Malformed message: missing type property'') exampleSession, None)
   \<and> messageHandler exampleParse exampleToString throwingHandler (StringData (units ''[1]'')) False exampleSession
     = (emit (ErrorEvent ''Malformed message: missing type property'') exampleSession, None)
   \<and> snd (messageHandler exampleParse exampleToString throwingHandler
            (StringData (units ''{\"type\":\"app_stopped\"}'')) False exampleSession)
     = None"
proof -
  note inst = messageHandler_drops_bad_frames
         [where parse = exampleParse and toString = exampleToString and hm = throwingHandler
            and isBinary = False and s = exampleSession]
  have t: "list_all js_whitespace (units ''   '')" "list_all js_whitespace [160, 8232, 65279]"
    "\<not> list_all js_whitespace (units ''{nope'')"
    "\<not> list_all js_whitespace (units ''{\"text\":\"hi\"}'')"
    "\<not> list_all js_whitespace (units ''[1]'')"
    by (simp_all add: js_whitespace_def units_def)
  have p: "exampleParse (units ''{nope'') = Inl (Error ''Unexpected token'')"
    "exampleParse (units ''{\"text\":\"hi\"}'') = Inr (JObject [(''text'', JString ''hi'')])"
    "exampleParse (units ''[1]'') = Inr (JArray [JNumber 1])"
    by (simp_all add: exampleParse_def units_def)
  have n: "\<not> type_in (JObject [(''text'', JString ''hi'')])" "\<not> type_in (JArray [JNumber 1])"
    by simp_all
  have u: "exampleToString (units ''{nope'') = units ''{nope''"
    by (simp add: exampleToString_def)
  have c1: "messageHandler exampleParse exampleToString throwingHandler (StringData (units ''   '')) False exampleSession
     = (emit (ErrorEvent ''Received empty JSON message'') exampleSession, None)"
    using inst [where data = "StringData (units ''   '')" and x = "units ''   ''"] t(1) by simp
  have c2: "messageHandler exampleParse exampleToString throwingHandler (StringData [160, 8232, 65279]) False exampleSession
     = (emit (ErrorEvent ''Received empty JSON message'') exampleSession, None)"
    using inst [where data = "StringData [160, 8232, 65279]" and x = "[160, 8232, 65279]"] t(2) by simp
  have c3: "messageHandler exampleParse exampleToString throwingHandler (BufferData (units ''{nope'')) False exampleSession
     = (emit (ErrorEvent (''Failed to parse JSON message: '' @ error_message (Error ''Unexpected token''))) exampleSession, None)"
    using inst [where data = "BufferData (units ''{nope'')" and x = "units ''{nope''"
                 and b = "units ''{nope''" and e = "Error ''Unexpected token''"] t(3) p(1) u
    by simp
  have c4: "messageHandler exampleParse exampleToString throwingHandler (StringData (units ''{\"text\":\"hi\"}'')) False exampleSession
     = (emit (ErrorEvent ''Malformed message: missing type property'') exampleSession, None)"
    using inst [where data = "StringData (units ''{\"text\":\"hi\"}'')" and x = "units ''{\"text\":\"hi\"}''"
                 and message = "JObject [(''text'', JString ''hi'')]"] t(4) p(2) n(1)
    by simp
  have c5: "messageHandler exampleParse exampleToString throwingHandler (StringData (units ''[1]'')) False exampleSession
     = (emit (ErrorEvent ''Malformed message: missing type property'') exampleSession, None)"
    using inst [where data = "StringData (units ''[1]'')" and x = "units ''[1]''"
                 and message = "JArray [JNumber 1]"] t(5) p(3) n(2)
    by simp
  have c6: "snd (messageHandler exampleParse exampleToString throwingHandler
            (StringData (units ''{\"type\":\"app_stopped\"}'')) False exampleSession) = None"
    using inst [where data = "StringData (units ''{\"type\":\"app_stopped\"}'')"] by simp
  from c1 c2 c3 c4 c5 c6 show ?thesis by simp
qed

subsection \<open>The user model\<close>

lemma emailFormat_intro:
  assumes l: "emailPart l" and a: "emailPart a" and b: "emailPart b"
  shows "emailFormat (l @ [64] @ a @ [46] @ b)"
proof -
  from l have t: "takeWhile (\<lambda>c. c \<noteq> 64) (l @ [64] @ a @ [46] @ b) = l"
    by (simp add: emailPart_def list_all_iff takeWhile_append2)
  from l have d: "dropWhile (\<lambda>c. c \<noteq> 64) (l @ [64] @ a @ [46] @ b) = 64 # (a @ [46] @ b)"
    by (simp add: emailPart_def list_all_iff dropWhile_append2)
  from a obtain x a' where x: "a = x # a'" by (cases a) (auto simp: emailPart_def)
  from b have "butlast (a' @ [46] @ b) = a' @ [46] @ butlast b"
    by (simp add: emailPart_def butlast_append)
  then have m: "46 \<in> set (butlast (tl (a @ [46] @ b)))" by (simp add: x)
  have w: "\<not> js_whitespace 46" by (simp add: js_whitespace_def)
  from a b w have p: "emailPart (a @ [46] @ b)" by (simp add: emailPart_def)
  from l p m show ?thesis unfolding emailFormat_def t d by simp
qed

lemma emailFormat_elim:
  assumes f: "emailFormat e"
  shows "\<exists>l a b. e = l @ [64] @ a @ [46] @ b \<and> emailPart l \<and> emailPart a \<and> emailPart b"
proof -
  let ?P = "\<lambda>c::nat. c \<noteq> 64"
  from f obtain at domain where d: "dropWhile ?P e = at # domain"
    and p: "emailPart domain" and m: "46 \<in> set (butlast (tl domain))"
    and l: "emailPart (takeWhile ?P e)"
    by (auto simp: emailFormat_def split: list.splits)
  from d have "dropWhile ?P e \<noteq> []" by simp
  then have "\<not> ?P (hd (dropWhile ?P e))" by (rule hd_dropWhile)
  with d have at: "at = 64" by simp
  from m obtain q r where s: "butlast (tl domain) = q @ 46 # r" by (auto dest: split_list)
  then have n: "tl domain \<noteq> []" by auto
  then have "tl domain = butlast (tl domain) @ [last (tl domain)]" by simp
  with s have t: "tl domain = q @ [46] @ (r @ [last (tl domain)])" by simp
  from n have "domain \<noteq> []" by auto
  then have "domain = hd domain # tl domain" by simp
  with t have dom: "domain = (hd domain # q) @ [46] @ (r @ [last (tl domain)])" by simp
  from p have "list_all (\<lambda>c. \<not> js_whitespace c \<and> c \<noteq> 64) domain" by (simp add: emailPart_def)
  then have "list_all (\<lambda>c. \<not> js_whitespace c \<and> c \<noteq> 64)
               ((hd domain # q) @ [46] @ (r @ [last (tl domain)]))"
    by (subst (asm) dom)
  then have pa: "emailPart (hd domain # q)" and pb: "emailPart (r @ [last (tl domain)])"
    by (simp_all add: emailPart_def)
  have "e = takeWhile ?P e @ dropWhile ?P e" by simp
  with d at dom
  have "e = takeWhile ?P e @ [64] @ (hd domain # q) @ [46] @ (r @ [last (tl domain)])"
    by simp
  with l pa pb show ?thesis by blast
qed

lemma emailFormat_iff:
  "emailFormat e \<longleftrightarrow>
     (\<exists>l a b. e = l @ [64] @ a @ [46] @ b \<and> emailPart l \<and> emailPart a \<and> emailPart b)"
  using emailFormat_intro emailFormat_elim by blast

lemma new_Set_distinct: "distinct (new_Set xs)"
  by (simp add: new_Set_def foldl_set_add_distinct)

lemma pre_save_fields:
  "installedApps (pre_save lc u) = installedApps u"
  "runningApps (pre_save lc u) = new_Set (runningApps u)"
  "email (pre_save lc u) = (if email u = [] then [] else setEmail lc (lc (email u)))"
  by (simp_all add: pre_save_def Let_def)

lemma save_cases:
  "fst (save lc v w u) = u \<and> snd (save lc v w u) \<noteq> None
   \<or> save lc v w u = (pre_save lc u, map_option WriteError w)"
  by (simp add: save_def)

lemma save_stored: "save lc v w u = (u', None) \<Longrightarrow> u' = pre_save lc u"
  using save_cases [of lc v w u] by auto

lemma save_installedApps [simp]: "installedApps (fst (save lc v w u)) = installedApps u"
  using save_cases [of lc v w u] by (auto simp: pre_save_fields)

lemma installedPackageNames_save [simp]:
  "installedPackageNames (fst (save lc v w u)) = installedPackageNames u"
  by (simp add: installedPackageNames_def)

lemma save_runningApps_distinct:
  "distinct (runningApps u) \<Longrightarrow> distinct (runningApps (fst (save lc v w u)))"
  using save_cases [of lc v w u] by (auto simp: pre_save_fields new_Set_distinct)

lemma save_duplicate_free: "duplicate_free u \<Longrightarrow> duplicate_free (fst (save lc v w u))"
  by (simp add: duplicate_free_def save_runningApps_distinct)

lemma isAppInstalled_iff: "isAppInstalled u name \<longleftrightarrow> name \<in> set (installedPackageNames u)"
  by (auto simp: isAppInstalled_def installedPackageNames_def list_ex_iff split: option.splits)

lemma installApp_names:
  "installedPackageNames (fst (installApp lc v w name now u))
     = (if name \<in> set (installedPackageNames u) then installedPackageNames u
        else installedPackageNames u @ [name])"
proof (cases "isAppInstalled u name")
  case True
  then show ?thesis by (simp add: installApp_def isAppInstalled_iff)
next
  case False
  then have "installedPackageNames (fst (installApp lc v w name now u))
               = installedPackageNames
                   (u\<lparr>installedApps :=
                        Some ((case installedApps u of None \<Rightarrow> [] | Some xs \<Rightarrow> xs)
                              @ [\<lparr>installedPackageName = name, installedDate = now\<rparr>])\<rparr>)"
    by (simp add: installApp_def Let_def)
  also have "\<dots> = installedPackageNames u @ [name]"
    by (simp add: installedPackageNames_def split: option.splits)
  finally show ?thesis using False by (simp add: isAppInstalled_iff)
qed

lemma uninstallApp_names:
  "installedPackageNames (fst (uninstallApp lc v w name u))
     = filter (\<lambda>n. n \<noteq> name) (installedPackageNames u)"
proof (cases "isAppInstalled u name")
  case True
  then have "installedPackageNames (fst (uninstallApp lc v w name u))
               = installedPackageNames
                   (u\<lparr>installedApps :=
                        Some (filter (\<lambda>app. installedPackageName app \<noteq> name)
                                (case installedApps u of None \<Rightarrow> [] | Some xs \<Rightarrow> xs))\<rparr>)"
    by (simp add: uninstallApp_def Let_def)
  also have "\<dots> = filter (\<lambda>n. n \<noteq> name) (installedPackageNames u)"
    by (simp add: installedPackageNames_def filter_map comp_def split: option.splits)
  finally show ?thesis .
next
  case False
  then have "name \<notin> set (installedPackageNames u)" by (simp add: isAppInstalled_iff)
  then have "filter (\<lambda>n. n \<noteq> name) (installedPackageNames u) = installedPackageNames u"
    by (auto intro: filter_True)
  with False show ?thesis by (simp add: uninstallApp_def)
qed

lemma installApp_idem:
  "installApp lc v2 w2 name t2 (fst (installApp lc v1 w1 name t1 u))
     = (fst (installApp lc v1 w1 name t1 u), None)"
proof -
  have "isAppInstalled (fst (installApp lc v1 w1 name t1 u)) name"
    by (simp add: isAppInstalled_iff installApp_names)
  then show ?thesis by (simp add: installApp_def [of lc v2 w2])
qed

lemma installApp_runningApps:
  "distinct (runningApps u) \<Longrightarrow> distinct (runningApps (fst (installApp lc v w name now u)))"
  by (simp add: installApp_def Let_def save_runningApps_distinct)

lemma uninstallApp_runningApps:
  "distinct (runningApps u) \<Longrightarrow> distinct (runningApps (fst (uninstallApp lc v w name u)))"
  by (simp add: uninstallApp_def Let_def save_runningApps_distinct)

lemma apply_user_op_duplicate_free:
  assumes d: "duplicate_free u"
  shows "duplicate_free (fst (apply_user_op lc u x))"
proof (cases x)
  case (InstallApp name now v w)
  with d show ?thesis
    by (simp add: duplicate_free_def installApp_names installApp_runningApps)
next
  case (UninstallApp name v w)
  with d show ?thesis
    by (simp add: duplicate_free_def uninstallApp_names uninstallApp_runningApps)
next
  case (AddRunningApp name v w)
  with d show ?thesis
    by (simp add: addRunningApp_def save_duplicate_free)
       (simp add: duplicate_free_def save_runningApps_distinct installedPackageNames_def)
next
  case (RemoveRunningApp name v w)
  with d show ?thesis
    by (simp add: removeRunningApp_def)
       (simp add: duplicate_free_def save_runningApps_distinct installedPackageNames_def)
next
  case (Save v w)
  with d show ?thesis by (simp add: save_duplicate_free)
qed

lemma operations_duplicate_free:
  "duplicate_free u \<Longrightarrow> duplicate_free (operations lc u ops)"
  unfolding operations_def
  by (induction ops arbitrary: u) (simp_all add: apply_user_op_duplicate_free)

lemma newUserDocument_duplicate_free: "duplicate_free (newUserDocument e)"
  by (simp add: newUserDocument_def duplicate_free_def installedPackageNames_def)

lemma trim_Nil [simp]: "trim [] = []"
  by (simp add: trim_def)

lemma setEmail_lower:
  assumes e: "lc [] = []" and i: "\<And>x. lc (lc x) = lc x" and c: "\<And>x. lc (trim x) = trim (lc x)"
  shows "(if x = [] then [] else setEmail lc (lc x)) = lc (trim x)"
proof (cases "x = []")
  case True
  then show ?thesis by (simp add: e)
next
  case False
  have "setEmail lc (lc x) = trim (lc x)"
    by (cases "lc x = []") (simp_all add: setEmail_def Let_def i)
  with False show ?thesis by (simp add: c)
qed

text \<open>
  C10: the user document keeps its app lists free of duplicates. A second \<open>installApp\<close>
  of the same package leaves the document as the first one left it and saves nothing,
  whether or not the first one could save. On a new document, no sequence of installs,
  uninstalls, starts, stops and saves, whichever of them reject, leads to
  \<open>installedApps\<close> with two entries of one package name, nor to \<open>runningApps\<close> with
  a name twice. And whenever \<open>save\<close> succeeds, the document stored has \<open>runningApps\<close>
  without duplicates, the installed apps that it had, and the email that the middleware
  assigned, which is the email in lower case, passed through the setters of the path: for a
  \<open>toLowerCase\<close> that keeps the empty string, is idempotent and commutes with
  \<open>trim\<close>, it is the lower case of the trimmed email, and is itself in lower case.
\<close>

theorem user_app_lists_duplicate_free:
  "installApp lc v2 w2 name t2 (fst (installApp lc v1 w1 name t1 u))
     = (fst (installApp lc v1 w1 name t1 u), None)
   \<and> distinct (installedPackageNames (operations lc (newUserDocument e) ops))
   \<and> distinct (runningApps (operations lc (newUserDocument e) ops))
   \<and> (save lc v w u = (u', None) \<longrightarrow>
        distinct (runningApps u')
        \<and> installedApps u' = installedApps u
        \<and> email u' = (if email u = [] then [] else setEmail lc (lc (email u)))
        \<and> (lc [] = [] \<and> (\<forall>x. lc (lc x) = lc x) \<and> (\<forall>x. lc (trim x) = trim (lc x)) \<longrightarrow>
             email u' = lc (trim (email u)) \<and> lc (email u') = email u'))"
proof -
  have s: "distinct (runningApps u') \<and> installedApps u' = installedApps u
           \<and> email u' = (if email u = [] then [] else setEmail lc (lc (email u)))"
    if "save lc v w u = (u', None)"
    using save_stored [OF that] by (simp add: pre_save_fields new_Set_distinct)
  have l: "email u' = lc (trim (email u)) \<and> lc (email u') = email u'"
    if a: "save lc v w u = (u', None)"
      and h: "lc [] = [] \<and> (\<forall>x. lc (lc x) = lc x) \<and> (\<forall>x. lc (trim x) = trim (lc x))"
  proof -
    from h have "(if email u = [] then [] else setEmail lc (lc (email u))) = lc (trim (email u))"
      by (intro setEmail_lower) simp_all
    with s [OF a] have "email u' = lc (trim (email u))" by simp
    with h show ?thesis by simp
  qed
  from operations_duplicate_free [OF newUserDocument_duplicate_free, of lc e ops]
  have o: "distinct (installedPackageNames (operations lc (newUserDocument e) ops))"
          "distinct (runningApps (operations lc (newUserDocument e) ops))"
    by (simp_all add: duplicate_free_def)
  show ?thesis
  proof (intro conjI impI)
    show "installApp lc v2 w2 name t2 (fst (installApp lc v1 w1 name t1 u))
            = (fst (installApp lc v1 w1 name t1 u), None)"
      by (rule installApp_idem)
  next
    show "distinct (installedPackageNames (operations lc (newUserDocument e) ops))" by (rule o)
  next
    show "distinct (runningApps (operations lc (newUserDocument e) ops))" by (rule o)
  next
    assume "save lc v w u = (u', None)"
    from s [OF this] show "distinct (runningApps u')" by simp
  next
    assume "save lc v w u = (u', None)"
    from s [OF this] show "installedApps u' = installedApps u" by simp
  next
    assume "save lc v w u = (u', None)"
    from s [OF this] show "email u' = (if email u = [] then [] else setEmail lc (lc (email u)))"
      by simp
  next
    assume a: "save lc v w u = (u', None)"
      and h: "lc [] = [] \<and> (\<forall>x. lc (lc x) = lc x) \<and> (\<forall>x. lc (trim x) = trim (lc x))"
    from l [OF a h] show "email u' = lc (trim (email u))" by (rule conjunct1)
  next
    assume a: "save lc v w u = (u', None)"
      and h: "lc [] = [] \<and> (\<forall>x. lc (lc x) = lc x) \<and> (\<forall>x. lc (trim x) = trim (lc x))"
    from l [OF a h] show "lc (email u') = email u'" by (rule conjunct2)
  qed
qed

text \<open>The properties of \<open>asciiLowerCase\<close>, and a save of the example document.\<close>

lemma asciiLowerCase_idem: "asciiLowerCase (asciiLowerCase x) = asciiLowerCase x"
  by (simp add: asciiLowerCase_def)

lemma asciiLowerCase_whitespace:
  "js_whitespace (if 65 \<le> c \<and> c \<le> 90 then c + 32 else c) = js_whitespace c"
  by (simp add: js_whitespace_def)

lemma dropWhile_asciiLowerCase:
  "dropWhile js_whitespace (asciiLowerCase x) = asciiLowerCase (dropWhile js_whitespace x)"
  by (induction x) (simp_all add: asciiLowerCase_def asciiLowerCase_whitespace)

lemma asciiLowerCase_rev: "rev (asciiLowerCase x) = asciiLowerCase (rev x)"
  by (simp add: asciiLowerCase_def rev_map)

lemma asciiLowerCase_trim: "asciiLowerCase (trim x) = trim (asciiLowerCase x)"
  by (simp add: trim_def dropWhile_asciiLowerCase asciiLowerCase_rev)

lemma units_example: "units ''U@Example.COM'' = [85, 64, 69, 120, 97, 109, 112, 108, 101, 46, 67, 79, 77]"
  by (simp add: units_def)

lemma units_example_lower: "units ''u@example.com'' = [117, 64, 101, 120, 97, 109, 112, 108, 101, 46, 99, 111, 109]"
  by (simp add: units_def)

lemma save_example:
  "save asciiLowerCase allPaths None exampleUser
     = (exampleUser\<lparr>email := units ''u@example.com''\<rparr>, None)"
proof -
  have f: "emailFormat (email exampleUser)"
    by (simp add: exampleUser_def units_example emailFormat_def emailPart_def js_whitespace_def)
  have v: "validationErrors allPaths exampleUser = []"
    using f by (simp add: validationErrors_def allPaths_def)
               (simp add: exampleUser_def units_example uniqueEntries_def new_Set_def set_add_def)
  have l: "asciiLowerCase (units ''U@Example.COM'') = units ''u@example.com''"
    by (simp add: units_example units_example_lower asciiLowerCase_def)
  have t: "trim (units ''u@example.com'') = units ''u@example.com''"
    by (simp add: units_example_lower trim_def js_whitespace_def)
  have l2: "asciiLowerCase (units ''u@example.com'') = units ''u@example.com''"
    using asciiLowerCase_idem [of "units ''U@Example.COM''"] by (simp only: l)
  have n: "units ''U@Example.COM'' \<noteq> []" "units ''u@example.com'' \<noteq> []"
    by (simp_all add: units_def)
  have p: "pre_save asciiLowerCase exampleUser = exampleUser\<lparr>email := units ''u@example.com''\<rparr>"
    by (simp add: pre_save_def Let_def setEmail_def exampleUser_def l l2 t n
          new_Set_def set_add_def)
  from v p show ?thesis by (simp add: save_def)
qed

lemma save_rejects_duplicates:
  "save asciiLowerCase allPaths None (exampleUser\<lparr>runningApps := [''com.a'', ''com.b'', ''com.a'']\<rparr>)
     = (exampleUser\<lparr>runningApps := [''com.a'', ''com.b'', ''com.a'']\<rparr>,
        Some (ValidationError [''Running apps must be unique'']))"
proof -
  have f: "emailFormat (email exampleUser)"
    by (simp add: exampleUser_def units_example emailFormat_def emailPart_def js_whitespace_def)
  have n: "email exampleUser \<noteq> []" by (simp add: exampleUser_def units_example)
  have i: "installedApps exampleUser = None" by (simp add: exampleUser_def)
  have "validationErrors allPaths (exampleUser\<lparr>runningApps := [''com.a'', ''com.b'', ''com.a'']\<rparr>)
          = [''Running apps must be unique'']"
    using f n i by (simp add: validationErrors_def allPaths_def uniqueEntries_def new_Set_def set_add_def)
  then show ?thesis by (simp add: save_def)
qed

text \<open>
  Two installs of one package on the example document, and its save: the email is stored as
  \<open>u@example.com\<close>.
\<close>

theorem user_app_lists_duplicate_free_witness:
  "installedPackageNames
     (fst (installApp asciiLowerCase allPaths None ''com.acme.app'' 2
        (fst (installApp asciiLowerCase allPaths None ''com.acme.app'' 1 exampleUser))))
     = [''com.acme.app'']
   \<and> save asciiLowerCase allPaths None exampleUser
       = (exampleUser\<lparr>email := units ''u@example.com''\<rparr>, None)
   \<and> runningApps (exampleUser\<lparr>email := units ''u@example.com''\<rparr>) = [''com.a'', ''com.b'']
   \<and> email (exampleUser\<lparr>email := units ''u@example.com''\<rparr>)
       = asciiLowerCase (trim (units ''U@Example.COM''))"
proof -
  have a: "installedPackageNames (fst (installApp asciiLowerCase allPaths None ''com.acme.app'' 1 exampleUser))
             = [''com.acme.app'']"
    by (simp add: installApp_names) (simp add: installedPackageNames_def exampleUser_def)
  have h: "asciiLowerCase [] = [] \<and> (\<forall>x. asciiLowerCase (asciiLowerCase x) = asciiLowerCase x)
           \<and> (\<forall>x. asciiLowerCase (trim x) = trim (asciiLowerCase x))"
    by (simp add: asciiLowerCase_idem asciiLowerCase_trim) (simp add: asciiLowerCase_def)
  have e: "email exampleUser = units ''U@Example.COM''" by (simp add: exampleUser_def)
  have r: "runningApps exampleUser = [''com.a'', ''com.b'']" by (simp add: exampleUser_def)
  note inst = user_app_lists_duplicate_free
         [where lc = asciiLowerCase and ?v2.0 = allPaths and ?w2.0 = None and ?v1.0 = allPaths
            and ?w1.0 = None and name = "''com.acme.app''" and ?t2.0 = 2 and ?t1.0 = 1
            and u = exampleUser and v = allPaths and w = None
            and u' = "exampleUser\<lparr>email := units ''u@example.com''\<rparr>"]
  from inst have i: "installApp asciiLowerCase allPaths None ''com.acme.app'' 2
                       (fst (installApp asciiLowerCase allPaths None ''com.acme.app'' 1 exampleUser))
                     = (fst (installApp asciiLowerCase allPaths None ''com.acme.app'' 1 exampleUser), None)"
    by (rule conjunct1)
  from inst save_example h
  have m: "email (exampleUser\<lparr>email := units ''u@example.com''\<rparr>)
             = asciiLowerCase (trim (email exampleUser))"
    by blast
  from i a have "installedPackageNames
     (fst (installApp asciiLowerCase allPaths None ''com.acme.app'' 2
        (fst (installApp asciiLowerCase allPaths None ''com.acme.app'' 1 exampleUser))))
     = [''com.acme.app'']"
    by simp
  with m save_example show ?thesis
    by (simp add: e r)
qed

text \<open>
  A run on a new document in which the second of four operations cannot write: the app that
  is installed twice is listed once.
\<close>

lemma operations_example:
  "installedPackageNames
        (operations asciiLowerCase (newUserDocument (units ''u@example.com''))
           [InstallApp ''com.a'' 1 allPaths None, InstallApp ''com.b'' 2 allPaths (Some ''write failed''),
            InstallApp ''com.a'' 3 allPaths None, UninstallApp ''com.b'' allPaths None])
       = [''com.a'']"
  by (simp add: operations_def installApp_names uninstallApp_names)
     (simp add: installedPackageNames_def newUserDocument_def)

end
